theory Spec2Isabelle
  imports Main
begin

section \<open>Python strings\<close>

text \<open>
  A Python \<^verbatim>\<open>str\<close> is modelled as a HOL \<^typ>\<open>string\<close>: a list of characters whose
  code points lie in 0..255.  On these code points \<^verbatim>\<open>str.isspace\<close> holds for
  TAB, LF, VT, FF, CR, the separators 0x1C..0x1F, SPACE, NEL (0x85) and NBSP (0xA0).
\<close>

definition isspace :: "char \<Rightarrow> bool" where
  "isspace c = ((of_char c :: nat) \<in> {9, 10, 11, 12, 13, 28, 29, 30, 31, 32, 133, 160})"

text \<open>\<^verbatim>\<open>str.strip()\<close> without argument: drop leading and trailing whitespace.\<close>

definition strip :: "string \<Rightarrow> string" where
  "strip s = rev (dropWhile isspace (rev (dropWhile isspace s)))"

text \<open>
  \<^verbatim>\<open>str.lower()\<close> on code points below 256: A..Z and the Latin-1 capitals
  0xC0..0xDE (without the multiplication sign 0xD7) move up by 32; every other
  character is kept.
\<close>

definition lower_char :: "char \<Rightarrow> char" where
  "lower_char c =
     (let n = (of_char c :: nat) in
      if (65 \<le> n \<and> n \<le> 90) \<or> (192 \<le> n \<and> n \<le> 222 \<and> n \<noteq> 215)
      then char_of (n + 32) else c)"

definition lower :: "string \<Rightarrow> string" where
  "lower s = map lower_char s"

section \<open>Errors\<close>

text \<open>
  \<^verbatim>\<open>HTTPException(status_code, detail)\<close> as raised by the handlers and the
  authentication middleware; \<open>ValidationError\<close> is what pydantic raises when a
  request body does not fit its schema, with one entry (field name, kind of error) for
  every field that failed; \<open>HTTPError\<close> is the failure of the outbound key-set
  request; \<open>KeyError\<close> a failed cache lookup; \<open>MultipleResultsFound\<close>,
  \<open>IntegrityError\<close> and \<open>DataError\<close> are the datastore's.
\<close>

datatype field_error =
    Missing
  | StringType
  | BoolType
  | StringTooShort
  | StringTooLong
  | ValueError string

datatype error =
    HTTPException nat string
  | ValidationError "(string \<times> field_error) list"
  | HTTPError
  | KeyError
  | MultipleResultsFound
  | IntegrityError
  | DataError

definition HTTP_401 :: error where
  "HTTP_401 = HTTPException 401 ''Not authenticated''"

definition HTTP_403 :: error where
  "HTTP_403 = HTTPException 403 ''Access denied''"

definition HTTP_404 :: error where
  "HTTP_404 = HTTPException 404 ''Task not found''"

definition HTTP_500 :: error where
  "HTTP_500 = HTTPException 500 ''Internal server error''"

text \<open>
  The status of the response for an exception that leaves a request.  An
  \<open>HTTPException\<close> carries its status.  A body that fails validation is answered by
  the framework's handler for request validation errors, which answers 422:
  \<^verbatim>\<open>main.py\<close> builds the application without registering any exception handler.
  Any other exception is a server error.
\<close>

definition error_status :: "error \<Rightarrow> nat" where
  "error_status e =
     (case e of
        HTTPException status_code detail \<Rightarrow> status_code
      | ValidationError errors \<Rightarrow> 422
      | _ \<Rightarrow> 500)"

section \<open>models/task.py\<close>

text \<open>
  A \<^verbatim>\<open>date\<close> is year, month, day of a calendar date (the schemas' date fields
  only ever hold parsed, valid dates); a \<^verbatim>\<open>datetime\<close> is a clock reading in
  microseconds (the resolution of \<^verbatim>\<open>datetime.utcnow()\<close>).
\<close>

datatype date = Date int nat nat

type_synonym datetime = int

text \<open>The table row.  \<open>id\<close> is \<open>None\<close> until the row has been inserted.\<close>

record Task =
  id :: "int option"
  user_id :: string
  title :: string
  description :: "string option"
  completed :: bool
  priority :: string
  due_date :: "date option"
  created_at :: datetime
  updated_at :: datetime

text \<open>
  A field of a JSON request body: absent from the body, present with value
  \<^verbatim>\<open>null\<close>, or present with a value of the field's type.  (Bodies whose fields
  carry a value of another JSON type are outside this model.)
\<close>

datatype 'a field = Unset | Null | Val 'a

record Body =
  title :: "string field"
  description :: "string field"
  completed :: "bool field"
  priority :: "string field"
  due_date :: "date field"

record TaskCreate =
  title :: string
  description :: "string option"
  priority :: "string option"
  due_date :: "date option"

record TaskUpdate =
  title :: string
  description :: "string option"
  completed :: bool
  priority :: string
  due_date :: "date option"

text \<open>
  \<open>TaskPartialUpdate\<close>: a field that was not supplied has the attribute value
  \<open>None\<close> and is not in \<^verbatim>\<open>model_fields_set\<close>; a supplied field is in that set
  and holds \<open>None\<close> or a value.  \<^typ>\<open>'a field\<close> carries exactly this information.
\<close>

record TaskPartialUpdate =
  title :: "string field"
  description :: "string field"
  completed :: "bool field"
  priority :: "string field"
  due_date :: "date field"

record TaskResponse =
  id :: int
  user_id :: string
  title :: string
  description :: "string option"
  completed :: bool
  priority :: string
  due_date :: "date option"
  created_at :: datetime
  updated_at :: datetime

text \<open>The \<^verbatim>\<open>Field(min_length=.., max_length=..)\<close> constraints of a string field.\<close>

definition min_length_ok :: "nat \<Rightarrow> string \<Rightarrow> bool" where
  "min_length_ok n s = (n \<le> length s)"

definition max_length_ok :: "nat \<Rightarrow> string \<Rightarrow> bool" where
  "max_length_ok n s = (length s \<le> n)"

definition allowed :: "string list" where
  "allowed = [''low'', ''medium'', ''high'']"

text \<open>
  A field's validation gives the validated value or the kind of error; \<open>err\<close> turns
  it into the entries of the \<open>ValidationError\<close>.
\<close>

definition err :: "string \<Rightarrow> field_error + 'a \<Rightarrow> (string \<times> field_error) list" where
  "err name r = (case r of Inl e \<Rightarrow> [(name, e)] | Inr _ \<Rightarrow> [])"

text \<open>\<^verbatim>\<open>Optional[str] = Field(default=None, max_length=5000)\<close>, in all three schemas.\<close>

definition description_field :: "string field \<Rightarrow> field_error + string option" where
  "description_field f =
     (case f of
        Unset \<Rightarrow> Inr None
      | Null \<Rightarrow> Inr None
      | Val v \<Rightarrow> if \<not> max_length_ok 5000 v then Inl StringTooLong else Inr (Some v))"

text \<open>\<^verbatim>\<open>Optional[date] = Field(default=None)\<close>.\<close>

definition due_date_field :: "date field \<Rightarrow> field_error + date option" where
  "due_date_field f = (case f of Unset \<Rightarrow> Inr None | Null \<Rightarrow> Inr None | Val d \<Rightarrow> Inr (Some d))"

subsection \<open>TaskCreate\<close>

definition TaskCreate_title_not_empty :: "string \<Rightarrow> field_error + string" where
  "TaskCreate_title_not_empty v =
     (if v = [] \<or> strip v = [] then Inl (ValueError ''Title cannot be empty or whitespace'')
      else Inr (strip v))"

definition TaskCreate_validate_priority :: "string option \<Rightarrow> field_error + string" where
  "TaskCreate_validate_priority v =
     (case v of
        None \<Rightarrow> Inr ''medium''
      | Some s \<Rightarrow>
          if lower s \<notin> set allowed
          then Inl (ValueError ''Priority must be one of: low, medium, high'')
          else Inr (lower s))"

text \<open>
  \<^verbatim>\<open>title: str = Field(min_length=1, max_length=500)\<close>: required, not nullable; the
  length constraints are checked on the string as sent, then the validator runs.
\<close>

definition TaskCreate_title_field :: "string field \<Rightarrow> field_error + string" where
  "TaskCreate_title_field f =
     (case f of
        Unset \<Rightarrow> Inl Missing
      | Null \<Rightarrow> Inl StringType
      | Val v \<Rightarrow>
          if \<not> min_length_ok 1 v then Inl StringTooShort
          else if \<not> max_length_ok 500 v then Inl StringTooLong
          else TaskCreate_title_not_empty v)"

text \<open>
  \<^verbatim>\<open>priority: Optional[str] = Field(default="medium")\<close>: the default is taken as it
  is when the field is absent; the validator runs on a supplied value, \<^verbatim>\<open>null\<close>
  included.
\<close>

definition TaskCreate_priority_field :: "string field \<Rightarrow> field_error + string option" where
  "TaskCreate_priority_field f =
     (case f of
        Unset \<Rightarrow> Inr (Some ''medium'')
      | Null \<Rightarrow> map_sum (\<lambda>e. e) Some (TaskCreate_validate_priority None)
      | Val v \<Rightarrow> map_sum (\<lambda>e. e) Some (TaskCreate_validate_priority (Some v)))"

definition parse_TaskCreate :: "Body \<Rightarrow> error + TaskCreate" where
  "parse_TaskCreate body =
     (let t = TaskCreate_title_field (Body.title body);
          d = description_field (Body.description body);
          p = TaskCreate_priority_field (Body.priority body);
          dd = due_date_field (Body.due_date body);
          errors = err ''title'' t @ err ''description'' d @ err ''priority'' p @ err ''due_date'' dd
      in if errors \<noteq> [] then Inl (ValidationError errors)
         else Inr \<lparr> TaskCreate.title = projr t, description = projr d,
                    priority = projr p, due_date = projr dd \<rparr>)"

subsection \<open>TaskUpdate\<close>

definition TaskUpdate_title_not_empty :: "string \<Rightarrow> field_error + string" where
  "TaskUpdate_title_not_empty v =
     (if v = [] \<or> strip v = [] then Inl (ValueError ''Title cannot be empty or whitespace'')
      else Inr (strip v))"

definition TaskUpdate_validate_priority :: "string \<Rightarrow> field_error + string" where
  "TaskUpdate_validate_priority v =
     (if lower v \<notin> set allowed
      then Inl (ValueError ''Priority must be one of: low, medium, high'')
      else Inr (lower v))"

definition TaskUpdate_title_field :: "string field \<Rightarrow> field_error + string" where
  "TaskUpdate_title_field f =
     (case f of
        Unset \<Rightarrow> Inl Missing
      | Null \<Rightarrow> Inl StringType
      | Val v \<Rightarrow>
          if \<not> min_length_ok 1 v then Inl StringTooShort
          else if \<not> max_length_ok 500 v then Inl StringTooLong
          else TaskUpdate_title_not_empty v)"

text \<open>\<^verbatim>\<open>completed: bool\<close>: no default, so the field is required.\<close>

definition TaskUpdate_completed_field :: "bool field \<Rightarrow> field_error + bool" where
  "TaskUpdate_completed_field f =
     (case f of Unset \<Rightarrow> Inl Missing | Null \<Rightarrow> Inl BoolType | Val b \<Rightarrow> Inr b)"

text \<open>\<^verbatim>\<open>priority: str = Field(default="medium")\<close>: absent means the default.\<close>

definition TaskUpdate_priority_field :: "string field \<Rightarrow> field_error + string" where
  "TaskUpdate_priority_field f =
     (case f of
        Unset \<Rightarrow> Inr ''medium''
      | Null \<Rightarrow> Inl StringType
      | Val v \<Rightarrow> TaskUpdate_validate_priority v)"

definition parse_TaskUpdate :: "Body \<Rightarrow> error + TaskUpdate" where
  "parse_TaskUpdate body =
     (let t = TaskUpdate_title_field (Body.title body);
          d = description_field (Body.description body);
          c = TaskUpdate_completed_field (Body.completed body);
          p = TaskUpdate_priority_field (Body.priority body);
          dd = due_date_field (Body.due_date body);
          errors = err ''title'' t @ err ''description'' d @ err ''completed'' c
                   @ err ''priority'' p @ err ''due_date'' dd
      in if errors \<noteq> [] then Inl (ValidationError errors)
         else Inr \<lparr> TaskUpdate.title = projr t, description = projr d, completed = projr c,
                    priority = projr p, due_date = projr dd \<rparr>)"

subsection \<open>TaskPartialUpdate\<close>

definition TaskPartialUpdate_title_not_empty :: "string option \<Rightarrow> field_error + string option" where
  "TaskPartialUpdate_title_not_empty v =
     (case v of
        None \<Rightarrow> Inr None
      | Some s \<Rightarrow>
          if s = [] \<or> strip s = [] then Inl (ValueError ''Title cannot be empty or whitespace'')
          else Inr (if s \<noteq> [] then Some (strip s) else Some s))"

definition TaskPartialUpdate_validate_priority :: "string option \<Rightarrow> field_error + string option" where
  "TaskPartialUpdate_validate_priority v =
     (case v of
        None \<Rightarrow> Inr None
      | Some s \<Rightarrow>
          if lower s \<notin> set allowed
          then Inl (ValueError ''Priority must be one of: low, medium, high'')
          else Inr (Some (lower s)))"

text \<open>A supplied field keeps being supplied after validation: \<open>None\<close> is \<open>Null\<close>.\<close>

definition supplied :: "'a option \<Rightarrow> 'a field" where
  "supplied v = (case v of None \<Rightarrow> Null | Some x \<Rightarrow> Val x)"

definition TaskPartialUpdate_title_field :: "string field \<Rightarrow> field_error + string field" where
  "TaskPartialUpdate_title_field f =
     (case f of
        Unset \<Rightarrow> Inr Unset
      | Null \<Rightarrow> map_sum (\<lambda>e. e) supplied (TaskPartialUpdate_title_not_empty None)
      | Val v \<Rightarrow>
          if \<not> min_length_ok 1 v then Inl StringTooShort
          else if \<not> max_length_ok 500 v then Inl StringTooLong
          else map_sum (\<lambda>e. e) supplied (TaskPartialUpdate_title_not_empty (Some v)))"

definition TaskPartialUpdate_description_field :: "string field \<Rightarrow> field_error + string field" where
  "TaskPartialUpdate_description_field f =
     (case f of
        Unset \<Rightarrow> Inr Unset
      | Null \<Rightarrow> Inr Null
      | Val v \<Rightarrow> if \<not> max_length_ok 5000 v then Inl StringTooLong else Inr (Val v))"

definition TaskPartialUpdate_priority_field :: "string field \<Rightarrow> field_error + string field" where
  "TaskPartialUpdate_priority_field f =
     (case f of
        Unset \<Rightarrow> Inr Unset
      | Null \<Rightarrow> map_sum (\<lambda>e. e) supplied (TaskPartialUpdate_validate_priority None)
      | Val v \<Rightarrow> map_sum (\<lambda>e. e) supplied (TaskPartialUpdate_validate_priority (Some v)))"

definition parse_TaskPartialUpdate :: "Body \<Rightarrow> error + TaskPartialUpdate" where
  "parse_TaskPartialUpdate body =
     (let t = TaskPartialUpdate_title_field (Body.title body);
          d = TaskPartialUpdate_description_field (Body.description body);
          p = TaskPartialUpdate_priority_field (Body.priority body);
          errors = err ''title'' t @ err ''description'' d @ err ''priority'' p
      in if errors \<noteq> [] then Inl (ValidationError errors)
         else Inr \<lparr> TaskPartialUpdate.title = projr t, description = projr d,
                    completed = Body.completed body, priority = projr p,
                    due_date = Body.due_date body \<rparr>)"

subsection \<open>TaskResponse\<close>

text \<open>
  \<^verbatim>\<open>TaskResponse.model_validate(task)\<close> reads the attributes of the row; \<open>id: int\<close>
  is required, so a row without id does not validate.
\<close>

definition model_validate :: "Task \<Rightarrow> error + TaskResponse" where
  "model_validate task =
     (case Task.id task of
        None \<Rightarrow> Inl (ValidationError [(''id'', Missing)])
      | Some i \<Rightarrow>
          Inr \<lparr> TaskResponse.id = i, user_id = Task.user_id task, title = Task.title task,
                description = Task.description task, completed = Task.completed task,
                priority = Task.priority task, due_date = Task.due_date task,
                created_at = Task.created_at task, updated_at = Task.updated_at task \<rparr>)"

section \<open>api/middleware/auth.py\<close>

text \<open>
  \<open>verify_token\<close> checks signature, expiry and required claims with the JWT library and
  the remote key set; it is a parameter here.  Its payload is read only at the claim
  \<open>sub\<close>, a string: \<open>payload k\<close> is \<^verbatim>\<open>payload.get(k)\<close>.
\<close>

type_synonym payload = "string \<Rightarrow> string option"

definition get_user_id_from_token :: "(string \<Rightarrow> error + payload) \<Rightarrow> string \<Rightarrow> error + string" where
  "get_user_id_from_token verify_token token =
     (case verify_token token of
        Inl e \<Rightarrow> Inl e
      | Inr payload \<Rightarrow>
          (case payload ''sub'' of
             None \<Rightarrow> Inl HTTP_401
           | Some sub \<Rightarrow> if sub = [] then Inl HTTP_401 else Inr sub))"

definition verify_user_access :: "string \<Rightarrow> string \<Rightarrow> error + unit" where
  "verify_user_access token_user_id path_user_id =
     (if token_user_id \<noteq> path_user_id then Inl HTTP_403 else Inr ())"

section \<open>The datastore\<close>

text \<open>
  The session on the \<open>tasks\<close> table (PostgreSQL): its rows.  The store is taken to be
  reachable; what it refuses depends on the data alone:
  \<^item> a string that holds the character U+0000, in a row or as a query parameter;
  \<^item> a string longer than its \<^verbatim>\<open>VARCHAR(n)\<close> column (the \<open>max_length\<close> of the
    column's declaration), unless the characters past \<open>n\<close> are all spaces: then the
    string is stored cut to \<open>n\<close> characters;
  \<^item> an id outside the 32-bit \<open>id\<close> column, in a row or as a query parameter;
  \<^item> a second row with the id of a stored row (\<open>id\<close> is the primary key).
\<close>

record Session =
  tasks :: "Task list"

definition nul_free :: "string \<Rightarrow> bool" where
  "nul_free s = list_all (\<lambda>c. (of_char c :: nat) \<noteq> 0) s"

definition in_int32 :: "int \<Rightarrow> bool" where
  "in_int32 i = (- 2147483648 \<le> i \<and> i \<le> 2147483647)"

text \<open>The value a \<^verbatim>\<open>VARCHAR(n)\<close> column stores for a string; \<open>None\<close>: refused.\<close>

definition varchar :: "nat \<Rightarrow> string \<Rightarrow> string option" where
  "varchar n s =
     (if \<not> nul_free s then None
      else if length s \<le> n then Some s
      else if list_all (\<lambda>c. c = CHR '' '') (drop n s) then Some (take n s)
      else None)"

text \<open>
  The row as the table stores it, by the column declarations of \<open>Task\<close>:
  \<open>user_id\<close> 255, \<open>title\<close> 500, \<open>description\<close> 5000 (nullable), \<open>priority\<close> 10.
\<close>

definition store_row :: "Task \<Rightarrow> Task option" where
  "store_row task =
     (case varchar 255 (Task.user_id task) of
        None \<Rightarrow> None
      | Some u \<Rightarrow>
     (case varchar 500 (Task.title task) of
        None \<Rightarrow> None
      | Some t \<Rightarrow>
     (case (case Task.description task of
              None \<Rightarrow> Some None
            | Some d \<Rightarrow> map_option Some (varchar 5000 d)) of
        None \<Rightarrow> None
      | Some d \<Rightarrow>
     (case varchar 10 (Task.priority task) of
        None \<Rightarrow> None
      | Some p \<Rightarrow>
          Some (task\<lparr> Task.user_id := u, Task.title := t,
                      Task.description := d, Task.priority := p \<rparr>)))))"

text \<open>
  \<^verbatim>\<open>session.add(task); commit(); refresh(task)\<close>.  \<open>new_id\<close> is the value the id
  sequence of the table hands to this insert.  The refreshed object is the row as
  stored.
\<close>

definition add_commit :: "Session \<Rightarrow> int \<Rightarrow> Task \<Rightarrow> error + Task \<times> Session" where
  "add_commit session new_id task =
     (case store_row task of
        None \<Rightarrow> Inl DataError
      | Some stored \<Rightarrow>
          if \<not> in_int32 new_id then Inl DataError
          else if Some new_id \<in> Task.id ` set (tasks session) then Inl IntegrityError
          else let row = stored\<lparr> Task.id := Some new_id \<rparr>
               in Inr (row, session\<lparr> tasks := tasks session @ [row] \<rparr>))"

text \<open>
  \<^verbatim>\<open>select(Task).where(Task.id == task_id, Task.user_id == user_id)\<close>: the rows that
  have both the id and the owner.
\<close>

definition select_task :: "Session \<Rightarrow> int \<Rightarrow> string \<Rightarrow> Task list" where
  "select_task session task_id owner =
     filter (\<lambda>t. Task.id t = Some task_id \<and> Task.user_id t = owner) (tasks session)"

text \<open>\<^verbatim>\<open>session.execute(statement)\<close>: the store refuses parameters it cannot hold.\<close>

definition execute_select :: "Session \<Rightarrow> int \<Rightarrow> string \<Rightarrow> error + Task list" where
  "execute_select session task_id owner =
     (if \<not> in_int32 task_id \<or> \<not> nul_free owner then Inl DataError
      else Inr (select_task session task_id owner))"

fun scalar_one_or_none :: "'a list \<Rightarrow> error + 'a option" where
  "scalar_one_or_none [] = Inr None"
| "scalar_one_or_none [x] = Inr (Some x)"
| "scalar_one_or_none (x # y # xs) = Inl MultipleResultsFound"

text \<open>
  Committing a changed row writes it, as the table stores it, over the row with its
  primary key; the refreshed object is the row as stored.
\<close>

definition update_commit :: "Session \<Rightarrow> Task \<Rightarrow> error + Task \<times> Session" where
  "update_commit session task =
     (case store_row task of
        None \<Rightarrow> Inl DataError
      | Some row \<Rightarrow>
          Inr (row, session\<lparr> tasks := map (\<lambda>r. if Task.id r = Task.id row then row else r)
                                         (tasks session) \<rparr>))"


section \<open>api/routes/tasks.py\<close>

text \<open>
  A handler takes the path parameters (\<open>path_user_id\<close> is the source's \<open>user_id\<close>),
  the validated body, the session and the authenticated user, in the order of the
  source, and then what it reads from its environment: the readings of
  \<^verbatim>\<open>datetime.utcnow()\<close>, and for an insert the new id.  It returns its response or
  the exception it raises, and the session: after a rollback that is the session it
  was given.  Every exception under the handler's \<^verbatim>\<open>try\<close> that is not an
  \<open>HTTPException\<close> is answered with 500.
\<close>

text \<open>
  \<open>Task(...)\<close> in \<open>create_task\<close> gives no timestamps, so both columns take their
  \<^verbatim>\<open>default_factory=datetime.utcnow\<close>: two readings of the clock, \<open>created_at\<close>
  first.
\<close>

definition create_task ::
  "string \<Rightarrow> TaskCreate \<Rightarrow> Session \<Rightarrow> string \<Rightarrow> datetime \<Rightarrow> datetime \<Rightarrow> int
   \<Rightarrow> (error + TaskResponse) \<times> Session" where
  "create_task path_user_id task_data session current_user_id now1 now2 new_id =
     (case verify_user_access current_user_id path_user_id of
        Inl e \<Rightarrow> (Inl e, session)
      | Inr _ \<Rightarrow>
          let task = \<lparr> Task.id = None, user_id = path_user_id,
                       title = TaskCreate.title task_data,
                       description = TaskCreate.description task_data,
                       completed = False,
                       priority = (case TaskCreate.priority task_data of
                                     None \<Rightarrow> ''medium''
                                   | Some p \<Rightarrow> if p = [] then ''medium'' else p),
                       due_date = TaskCreate.due_date task_data,
                       created_at = now1, updated_at = now2 \<rparr>
          in (case add_commit session new_id task of
                Inl e \<Rightarrow> (Inl HTTP_500, session)
              | Inr (row, session') \<Rightarrow>
                  (case model_validate row of
                     Inl e \<Rightarrow> (Inl HTTP_500, session')
                   | Inr response \<Rightarrow> (Inr response, session'))))"


definition update_task ::
  "string \<Rightarrow> int \<Rightarrow> TaskUpdate \<Rightarrow> Session \<Rightarrow> string \<Rightarrow> datetime
   \<Rightarrow> (error + TaskResponse) \<times> Session" where
  "update_task path_user_id task_id task_data session current_user_id now =
     (case verify_user_access current_user_id path_user_id of
        Inl e \<Rightarrow> (Inl e, session)
      | Inr _ \<Rightarrow>
          (case execute_select session task_id path_user_id of
             Inl e \<Rightarrow> (Inl HTTP_500, session)
           | Inr result \<Rightarrow>
          (case scalar_one_or_none result of
             Inl e \<Rightarrow> (Inl HTTP_500, session)
           | Inr None \<Rightarrow> (Inl HTTP_404, session)
           | Inr (Some task) \<Rightarrow>
               let task' = task\<lparr> Task.title := TaskUpdate.title task_data,
                                 Task.description := TaskUpdate.description task_data,
                                 Task.completed := TaskUpdate.completed task_data,
                                 Task.priority := TaskUpdate.priority task_data,
                                 Task.due_date := TaskUpdate.due_date task_data,
                                 Task.updated_at := now \<rparr>
               in (case update_commit session task' of
                     Inl e \<Rightarrow> (Inl HTTP_500, session)
                   | Inr (row, session') \<Rightarrow>
                       (case model_validate row of
                          Inl e \<Rightarrow> (Inl HTTP_500, session')
                        | Inr response \<Rightarrow> (Inr response, session'))))))"

text \<open>
  \<^verbatim>\<open>task_data.model_dump(exclude_unset=True)\<close>: the supplied fields, in the order
  of the schema, with their values.
\<close>

datatype py_value = PyNone | PyStr string | PyBool bool | PyDate date

definition dump_field :: "string \<Rightarrow> ('a \<Rightarrow> py_value) \<Rightarrow> 'a field \<Rightarrow> (string \<times> py_value) list" where
  "dump_field name conv f =
     (case f of Unset \<Rightarrow> [] | Null \<Rightarrow> [(name, PyNone)] | Val v \<Rightarrow> [(name, conv v)])"

definition model_dump_exclude_unset :: "TaskPartialUpdate \<Rightarrow> (string \<times> py_value) list" where
  "model_dump_exclude_unset task_data =
     dump_field ''title'' PyStr (TaskPartialUpdate.title task_data)
     @ dump_field ''description'' PyStr (TaskPartialUpdate.description task_data)
     @ dump_field ''completed'' PyBool (TaskPartialUpdate.completed task_data)
     @ dump_field ''priority'' PyStr (TaskPartialUpdate.priority task_data)
     @ dump_field ''due_date'' PyDate (TaskPartialUpdate.due_date task_data)"

text \<open>
  \<^verbatim>\<open>setattr(task, field, value)\<close> on the row object.  The result is \<open>None\<close> when
  the object then holds a value its column cannot store (\<^verbatim>\<open>None\<close> in a
  \<^verbatim>\<open>nullable=False\<close> column): the commit of such an object raises.
\<close>

definition setattr :: "Task \<Rightarrow> string \<Rightarrow> py_value \<Rightarrow> Task option" where
  "setattr task field v =
     (if field = ''title'' then
        (case v of PyStr s \<Rightarrow> Some (task\<lparr> Task.title := s \<rparr>) | _ \<Rightarrow> None)
      else if field = ''description'' then
        (case v of PyStr s \<Rightarrow> Some (task\<lparr> Task.description := Some s \<rparr>)
                 | PyNone \<Rightarrow> Some (task\<lparr> Task.description := None \<rparr>)
                 | _ \<Rightarrow> None)
      else if field = ''completed'' then
        (case v of PyBool b \<Rightarrow> Some (task\<lparr> Task.completed := b \<rparr>) | _ \<Rightarrow> None)
      else if field = ''priority'' then
        (case v of PyStr s \<Rightarrow> Some (task\<lparr> Task.priority := s \<rparr>) | _ \<Rightarrow> None)
      else if field = ''due_date'' then
        (case v of PyDate d \<Rightarrow> Some (task\<lparr> Task.due_date := Some d \<rparr>)
                 | PyNone \<Rightarrow> Some (task\<lparr> Task.due_date := None \<rparr>)
                 | _ \<Rightarrow> None)
      else None)"

text \<open>The loop \<^verbatim>\<open>for field, value in update_data.items(): setattr(task, field, value)\<close>.\<close>

fun setattr_all :: "Task option \<Rightarrow> (string \<times> py_value) list \<Rightarrow> Task option" where
  "setattr_all task [] = task"
| "setattr_all task ((field, v) # update_data) =
     setattr_all (case task of None \<Rightarrow> None | Some t \<Rightarrow> setattr t field v) update_data"

definition patch_task ::
  "string \<Rightarrow> int \<Rightarrow> TaskPartialUpdate \<Rightarrow> Session \<Rightarrow> string \<Rightarrow> datetime
   \<Rightarrow> (error + TaskResponse) \<times> Session" where
  "patch_task path_user_id task_id task_data session current_user_id now =
     (case verify_user_access current_user_id path_user_id of
        Inl e \<Rightarrow> (Inl e, session)
      | Inr _ \<Rightarrow>
          (case execute_select session task_id path_user_id of
             Inl e \<Rightarrow> (Inl HTTP_500, session)
           | Inr result \<Rightarrow>
          (case scalar_one_or_none result of
             Inl e \<Rightarrow> (Inl HTTP_500, session)
           | Inr None \<Rightarrow> (Inl HTTP_404, session)
           | Inr (Some task) \<Rightarrow>
               (case setattr_all (Some task) (model_dump_exclude_unset task_data) of
                  None \<Rightarrow> (Inl HTTP_500, session)
                | Some task1 \<Rightarrow>
                    let task' = task1\<lparr> Task.updated_at := now \<rparr>
                    in (case update_commit session task' of
                          Inl e \<Rightarrow> (Inl HTTP_500, session)
                        | Inr (row, session') \<Rightarrow>
                            (case model_validate row of
                               Inl e \<Rightarrow> (Inl HTTP_500, session')
                             | Inr response \<Rightarrow> (Inr response, session')))))))"


subsection \<open>Requests\<close>

text \<open>
  The framework validates the JSON body against the schema of the handler's
  \<open>task_data\<close> parameter and calls the handler only with a validated body; a body that
  does not validate is answered with the validation error, the handler is not run.
\<close>

definition post_request ::
  "string \<Rightarrow> Body \<Rightarrow> Session \<Rightarrow> string \<Rightarrow> datetime \<Rightarrow> datetime \<Rightarrow> int
   \<Rightarrow> (error + TaskResponse) \<times> Session" where
  "post_request path_user_id body session current_user_id now1 now2 new_id =
     (case parse_TaskCreate body of
        Inl e \<Rightarrow> (Inl e, session)
      | Inr task_data \<Rightarrow>
          create_task path_user_id task_data session current_user_id now1 now2 new_id)"

definition put_request ::
  "string \<Rightarrow> int \<Rightarrow> Body \<Rightarrow> Session \<Rightarrow> string \<Rightarrow> datetime
   \<Rightarrow> (error + TaskResponse) \<times> Session" where
  "put_request path_user_id task_id body session current_user_id now =
     (case parse_TaskUpdate body of
        Inl e \<Rightarrow> (Inl e, session)
      | Inr task_data \<Rightarrow> update_task path_user_id task_id task_data session current_user_id now)"

definition patch_request ::
  "string \<Rightarrow> int \<Rightarrow> Body \<Rightarrow> Session \<Rightarrow> string \<Rightarrow> datetime
   \<Rightarrow> (error + TaskResponse) \<times> Session" where
  "patch_request path_user_id task_id body session current_user_id now =
     (case parse_TaskPartialUpdate body of
        Inl e \<Rightarrow> (Inl e, session)
      | Inr task_data \<Rightarrow> patch_task path_user_id task_id task_data session current_user_id now)"

section \<open>services/jwks.py\<close>

text \<open>
  The key set, as (key id, key) pairs.  \<open>TTLCache\<close> is the cache class of the
  \<^verbatim>\<open>cachetools\<close> library: its links are (key, value, expiry time), oldest first;
  membership and lookup see an entry only while the timer is before its expiry time,
  and storing first expires the old entries and evicts from the head down to
  \<open>maxsize\<close>.  Every operation reads the timer: the reading is its argument \<open>now\<close>.
\<close>

type_synonym jwks = "(string \<times> string) list"

record TTLCache =
  links :: "(string \<times> jwks \<times> nat) list"
  maxsize :: nat
  ttl :: nat

definition getlink :: "TTLCache \<Rightarrow> string \<Rightarrow> (string \<times> jwks \<times> nat) option" where
  "getlink cache key = find (\<lambda>l. fst l = key) (links cache)"

definition contains :: "TTLCache \<Rightarrow> nat \<Rightarrow> string \<Rightarrow> bool" where
  "contains cache now key =
     (case getlink cache key of None \<Rightarrow> False | Some (_, _, expires) \<Rightarrow> now < expires)"

definition getitem :: "TTLCache \<Rightarrow> nat \<Rightarrow> string \<Rightarrow> error + jwks" where
  "getitem cache now key =
     (case getlink cache key of
        None \<Rightarrow> Inl KeyError
      | Some (_, v, expires) \<Rightarrow> if \<not> now < expires then Inl KeyError else Inr v)"

definition expire :: "TTLCache \<Rightarrow> nat \<Rightarrow> TTLCache" where
  "expire cache now =
     cache\<lparr> links := dropWhile (\<lambda>(_, _, expires). \<not> now < expires) (links cache) \<rparr>"

definition setitem :: "TTLCache \<Rightarrow> nat \<Rightarrow> string \<Rightarrow> jwks \<Rightarrow> TTLCache" where
  "setitem cache now key v =
     (let ls = links (expire cache now);
          ls' = (if key \<in> fst ` set ls then filter (\<lambda>l. fst l \<noteq> key) ls
                 else drop (Suc (length ls) - maxsize cache) ls)
      in cache\<lparr> links := ls' @ [(key, v, now + ttl cache)] \<rparr>)"

definition jwks_cache_init :: TTLCache where
  "jwks_cache_init = \<lparr> links = [], maxsize = 10, ttl = 3600 \<rparr>"

text \<open>
  \<open>fetch_jwks\<close>: \<open>remote\<close> is the outcome of the HTTP request (\<open>Inl HTTPError\<close> when it
  fails), \<open>now1\<close> the timer when the cache is looked at first, \<open>now2\<close> the timer after
  the request.
\<close>

definition fetch_jwks ::
  "string \<Rightarrow> bool \<Rightarrow> error + jwks \<Rightarrow> nat \<Rightarrow> nat \<Rightarrow> TTLCache \<Rightarrow> (error + jwks) \<times> TTLCache" where
  "fetch_jwks jwks_url force_refresh remote now1 now2 cache =
     (let cache_key = jwks_url in
      if \<not> force_refresh \<and> contains cache now1 cache_key
      then (getitem cache now1 cache_key, cache)
      else (case remote of
              Inr jwks \<Rightarrow> (Inr jwks, setitem cache now2 cache_key jwks)
            | Inl e \<Rightarrow>
                if e = HTTPError then
                  (if contains cache now2 cache_key
                   then (getitem cache now2 cache_key, cache)
                   else (Inl e, cache))
                else (Inl e, cache)))"

section \<open>Invariants of the datastore and example data\<close>

text \<open>
  \<open>id\<close> is the primary key of the table, a 32-bit integer column: every row has an
  id, in range, and no two rows share it.
\<close>

definition primary_key :: "Session \<Rightarrow> bool" where
  "primary_key session =
     (distinct (map Task.id (tasks session))
      \<and> list_all (\<lambda>t. case Task.id t of None \<Rightarrow> False | Some i \<Rightarrow> in_int32 i)
           (tasks session))"

text \<open>A row fits the columns when the table stores it as it is.\<close>

definition fits_columns :: "Task \<Rightarrow> bool" where
  "fits_columns task =
     (nul_free (Task.user_id task) \<and> length (Task.user_id task) \<le> 255
      \<and> nul_free (Task.title task) \<and> length (Task.title task) \<le> 500
      \<and> (case Task.description task of
            None \<Rightarrow> True | Some d \<Rightarrow> nul_free d \<and> length d \<le> 5000)
      \<and> nul_free (Task.priority task) \<and> length (Task.priority task) \<le> 10)"

text \<open>Every stored row fits the columns of the table.\<close>

definition columns_ok :: "Session \<Rightarrow> bool" where
  "columns_ok session = (\<forall>t\<in>set (tasks session). fits_columns t)"

definition alice_task :: Task where
  "alice_task = \<lparr> Task.id = Some 1, user_id = ''alice'', title = ''Buy milk'',
                   description = None, completed = False, priority = ''high'',
                   due_date = None, created_at = 5, updated_at = 5 \<rparr>"

definition alice_session :: Session where
  "alice_session = \<lparr> tasks = [alice_task] \<rparr>"



text \<open>
  Following the spec's words: two strings match case-insensitively when they are
  equal after lowering.
\<close>

definition ci_equal :: "string \<Rightarrow> string \<Rightarrow> bool" where
  "ci_equal a b = (lower a = lower b)"

text \<open>
  The row that the loop of \<open>patch_task\<close> leaves when no \<^verbatim>\<open>nullable=False\<close>
  column was assigned \<^verbatim>\<open>None\<close>, field by field.
\<close>

definition patched :: "TaskPartialUpdate \<Rightarrow> Task \<Rightarrow> Task" where
  "patched d t =
     t\<lparr> Task.title := (case TaskPartialUpdate.title d of Val v \<Rightarrow> v | _ \<Rightarrow> Task.title t),
        Task.description := (case TaskPartialUpdate.description d of
                               Unset \<Rightarrow> Task.description t | Null \<Rightarrow> None | Val v \<Rightarrow> Some v),
        Task.completed := (case TaskPartialUpdate.completed d of
                             Val v \<Rightarrow> v | _ \<Rightarrow> Task.completed t),
        Task.priority := (case TaskPartialUpdate.priority d of
                            Val v \<Rightarrow> v | _ \<Rightarrow> Task.priority t),
        Task.due_date := (case TaskPartialUpdate.due_date d of
                            Unset \<Rightarrow> Task.due_date t | Null \<Rightarrow> None | Val v \<Rightarrow> Some v) \<rparr>"

text \<open>Request bodies and sessions used as examples.\<close>

definition empty_body :: Body where
  "empty_body = \<lparr> Body.title = Unset, description = Unset, completed = Unset,
                   priority = Unset, due_date = Unset \<rparr>"


definition title_body :: "string \<Rightarrow> Body" where
  "title_body t = \<lparr> Body.title = Val t, description = Unset, completed = Unset,
                     priority = Unset, due_date = Unset \<rparr>"

definition put_body :: Body where
  "put_body = \<lparr> Body.title = Val ''Buy bread'', description = Unset, completed = Val False,
                 priority = Unset, due_date = Unset \<rparr>"

definition empty_session :: Session where
  "empty_session = \<lparr> tasks = [] \<rparr>"

definition priority_body :: "string \<Rightarrow> string \<Rightarrow> Body" where
  "priority_body t p = \<lparr> Body.title = Val t, description = Unset, completed = Unset,
                          priority = Val p, due_date = Unset \<rparr>"

text \<open>An owner identifier of 256 characters: 255 letters and a final space.\<close>

definition long_owner :: string where
  "long_owner = replicate 255 (CHR ''a'') @ '' ''"

text \<open>A key-set URL, a key set, and the cache after that key set was stored at time 0.\<close>

definition jwks_url_example :: string where
  "jwks_url_example = ''https://auth.example/jwks''"

definition jwks_example :: jwks where
  "jwks_example = [(''kid-1'', ''public-key-1'')]"

definition jwks_cache_filled :: TTLCache where
  "jwks_cache_filled =
     \<lparr> links = [(jwks_url_example, jwks_example, 3600)], maxsize = 10, ttl = 3600 \<rparr>"


section \<open>The owner-filtered lookup\<close>

lemma filter_distinct_key:
  "distinct (map f xs) \<Longrightarrow> x \<in> set xs \<Longrightarrow>
   filter (\<lambda>y. f y = f x \<and> P y) xs = (if P x then [x] else [])"
proof (induction xs)
  case Nil
  then show ?case by simp
next
  case (Cons a xs)
  show ?case
  proof (cases "a = x")
    case True
    have "f x \<notin> f ` set xs" using Cons.prems(1) True by simp
    then have "\<forall>y\<in>set xs. f y \<noteq> f x" by (metis imageI)
    then have "filter (\<lambda>y. f y = f x \<and> P y) xs = []" by (simp add: filter_empty_conv)
    then show ?thesis using True by simp
  next
    case False
    then have xin: "x \<in> set xs" using Cons.prems(2) by simp
    have "f a \<noteq> f x" using Cons.prems(1) xin by auto
    then show ?thesis using Cons.IH Cons.prems(1) xin by simp
  qed
qed

lemma primary_key_distinct:
  "primary_key session \<Longrightarrow> distinct (map Task.id (tasks session))"
  by (simp add: primary_key_def)

lemma primary_key_range:
  assumes "primary_key session" and "t \<in> set (tasks session)" and "Task.id t = Some i"
  shows "in_int32 i"
proof -
  have "list_all (\<lambda>t. case Task.id t of None \<Rightarrow> False | Some i \<Rightarrow> in_int32 i) (tasks session)"
    using assms(1) by (simp add: primary_key_def)
  then have "case Task.id t of None \<Rightarrow> False | Some i \<Rightarrow> in_int32 i"
    using assms(2) by (simp add: list_all_iff)
  then show ?thesis using assms(3) by simp
qed

lemma select_task_owned:
  assumes "primary_key session" "task \<in> set (tasks session)"
    "Task.id task = Some task_id" "Task.user_id task = owner"
  shows "select_task session task_id owner = [task]"
  using filter_distinct_key [of Task.id "tasks session" task "\<lambda>t. Task.user_id t = owner"]
    primary_key_distinct [OF assms(1)] assms(2-4)
  by (simp add: select_task_def)



lemma alice_session_primary_key: "primary_key alice_session"
  by (simp add: primary_key_def alice_session_def alice_task_def in_int32_def)









section \<open>Strings and the partial update\<close>

lemma strip_Nil_iff: "strip s = [] \<longleftrightarrow> (\<forall>c\<in>set s. isspace c)"
proof
  assume "strip s = []"
  then have all: "\<forall>c\<in>set (dropWhile isspace s). isspace c"
    by (simp add: strip_def dropWhile_eq_Nil_conv)
  have "dropWhile isspace s = []"
  proof (rule ccontr)
    assume ne: "dropWhile isspace s \<noteq> []"
    then have "\<not> isspace (hd (dropWhile isspace s))" by (rule hd_dropWhile)
    moreover have "hd (dropWhile isspace s) \<in> set (dropWhile isspace s)" using ne by simp
    ultimately show False using all by blast
  qed
  then show "\<forall>c\<in>set s. isspace c" by (simp add: dropWhile_eq_Nil_conv)
next
  assume "\<forall>c\<in>set s. isspace c"
  then have d: "dropWhile isspace s = []" by (simp only: dropWhile_eq_Nil_conv)
  show "strip s = []" unfolding strip_def d by simp
qed

lemma length_strip: "length (strip s) \<le> length s"
proof -
  have "length (strip s) \<le> length (rev (dropWhile isspace s))"
    unfolding strip_def length_rev [of "dropWhile isspace (rev (dropWhile isspace s))"]
    by (rule length_dropWhile_le)
  also have "\<dots> \<le> length s" unfolding length_rev by (rule length_dropWhile_le)
  finally show ?thesis .
qed

lemma setattr_all_None: "setattr_all None xs = None"
  by (induction xs) auto

lemma setattr_all_append:
  "setattr_all x (xs @ ys) = setattr_all (setattr_all x xs) ys"
  by (induction xs arbitrary: x) auto

lemma set_title:
  "setattr_all (Some t) (dump_field ''title'' PyStr f) =
     (case f of Unset \<Rightarrow> Some t | Null \<Rightarrow> None | Val v \<Rightarrow> Some (t\<lparr> Task.title := v \<rparr>))"
  by (simp add: dump_field_def setattr_def split: field.splits)

lemma set_description:
  "setattr_all (Some t) (dump_field ''description'' PyStr f) =
     (case f of Unset \<Rightarrow> Some t | Null \<Rightarrow> Some (t\<lparr> Task.description := None \<rparr>)
              | Val v \<Rightarrow> Some (t\<lparr> Task.description := Some v \<rparr>))"
  by (simp add: dump_field_def setattr_def split: field.splits)

lemma set_completed:
  "setattr_all (Some t) (dump_field ''completed'' PyBool f) =
     (case f of Unset \<Rightarrow> Some t | Null \<Rightarrow> None | Val v \<Rightarrow> Some (t\<lparr> Task.completed := v \<rparr>))"
  by (simp add: dump_field_def setattr_def split: field.splits)

lemma set_priority:
  "setattr_all (Some t) (dump_field ''priority'' PyStr f) =
     (case f of Unset \<Rightarrow> Some t | Null \<Rightarrow> None | Val v \<Rightarrow> Some (t\<lparr> Task.priority := v \<rparr>))"
  by (simp add: dump_field_def setattr_def split: field.splits)

lemma set_due_date:
  "setattr_all (Some t) (dump_field ''due_date'' PyDate f) =
     (case f of Unset \<Rightarrow> Some t | Null \<Rightarrow> Some (t\<lparr> Task.due_date := None \<rparr>)
              | Val v \<Rightarrow> Some (t\<lparr> Task.due_date := Some v \<rparr>))"
  by (simp add: dump_field_def setattr_def split: field.splits)

lemma setattr_all_model_dump:
  "setattr_all (Some t) (model_dump_exclude_unset d) =
     (if TaskPartialUpdate.title d = Null \<or> TaskPartialUpdate.completed d = Null
         \<or> TaskPartialUpdate.priority d = Null
      then None else Some (patched d t))"
proof -
  show ?thesis
    unfolding model_dump_exclude_unset_def setattr_all_append set_title
    by (cases "TaskPartialUpdate.title d"; cases "TaskPartialUpdate.description d";
        cases "TaskPartialUpdate.completed d"; cases "TaskPartialUpdate.priority d";
        cases "TaskPartialUpdate.due_date d";
        simp add: setattr_all_None set_description set_completed set_priority set_due_date patched_def)
qed

lemma allowed_length: "p \<in> set allowed \<Longrightarrow> length p \<le> 10"
  by (auto simp: allowed_def)





lemma nul_free_strip: "nul_free s \<Longrightarrow> nul_free (strip s)"
proof -
  assume a: "nul_free s"
  have "set (strip s) \<subseteq> set s"
    unfolding strip_def set_rev
    using set_dropWhileD [of _ isspace "rev (dropWhile isspace s)"]
      set_dropWhileD [of _ isspace s]
    by auto
  then show ?thesis using a by (auto simp: nul_free_def list_all_iff)
qed

lemma nul_free_allowed: "p \<in> set allowed \<Longrightarrow> nul_free p"
  by (auto simp: allowed_def nul_free_def)

lemma varchar_fits: "nul_free s \<Longrightarrow> length s \<le> n \<Longrightarrow> varchar n s = Some s"
  by (simp add: varchar_def)

lemma varchar_short: "length s \<le> n \<Longrightarrow> varchar n s = (if nul_free s then Some s else None)"
  by (simp add: varchar_def)

lemma store_row_fits:
  assumes "fits_columns t"
  shows "store_row t = Some t"
  using assms
  by (cases "Task.description t") (simp_all add: fits_columns_def store_row_def varchar_fits)

lemma execute_select_owned:
  assumes "primary_key session" and "columns_ok session" and "task \<in> set (tasks session)"
    and "Task.id task = Some task_id" and "Task.user_id task = owner"
  shows "execute_select session task_id owner = Inr [task]"
proof -
  have "fits_columns task" using assms(2,3) by (simp add: columns_ok_def)
  then have "nul_free owner" using assms(5) by (auto simp: fits_columns_def)
  moreover have "in_int32 task_id" using primary_key_range [OF assms(1,3,4)] .
  ultimately show ?thesis
    using select_task_owned [OF assms(1,3,4,5)] by (simp add: execute_select_def)
qed

lemma store_row_within:
  assumes "length (Task.user_id t) \<le> 255" and "length (Task.title t) \<le> 500"
    and "\<forall>d. Task.description t = Some d \<longrightarrow> length d \<le> 5000"
    and "length (Task.priority t) \<le> 10"
  shows "store_row t = (if fits_columns t then Some t else None)"
  using assms
  by (cases "Task.description t")
    (simp_all add: fits_columns_def store_row_def varchar_short)

lemma within_patched:
  assumes "fits_columns t"
    and "\<forall>v. TaskPartialUpdate.title d = Val v \<longrightarrow> length v \<le> 500"
    and "\<forall>v. TaskPartialUpdate.description d = Val v \<longrightarrow> length v \<le> 5000"
    and "\<forall>v. TaskPartialUpdate.priority d = Val v \<longrightarrow> length v \<le> 10"
  shows "length (Task.user_id ((patched d t)\<lparr> Task.updated_at := now \<rparr>)) \<le> 255"
    and "length (Task.title ((patched d t)\<lparr> Task.updated_at := now \<rparr>)) \<le> 500"
    and "\<forall>x. Task.description ((patched d t)\<lparr> Task.updated_at := now \<rparr>) = Some x
           \<longrightarrow> length x \<le> 5000"
    and "length (Task.priority ((patched d t)\<lparr> Task.updated_at := now \<rparr>)) \<le> 10"
  using assms by (auto simp: fits_columns_def patched_def split: field.splits option.splits)



lemma patch_task_owned:
  assumes "primary_key session" and "columns_ok session" and "task \<in> set (tasks session)"
    and "Task.id task = Some task_id" and "Task.user_id task = owner"
    and "\<forall>v. TaskPartialUpdate.title d = Val v \<longrightarrow> length v \<le> 500"
    and "\<forall>v. TaskPartialUpdate.description d = Val v \<longrightarrow> length v \<le> 5000"
    and "\<forall>v. TaskPartialUpdate.priority d = Val v \<longrightarrow> length v \<le> 10"
  shows "patch_task owner task_id d session owner now =
     (if TaskPartialUpdate.title d = Null \<or> TaskPartialUpdate.completed d = Null
         \<or> TaskPartialUpdate.priority d = Null
         \<or> \<not> fits_columns ((patched d task)\<lparr> Task.updated_at := now \<rparr>)
      then (Inl HTTP_500, session)
      else (model_validate ((patched d task)\<lparr> Task.updated_at := now \<rparr>),
            session\<lparr> tasks := map (\<lambda>r. if Task.id r = Some task_id
                                         then (patched d task)\<lparr> Task.updated_at := now \<rparr>
                                         else r)
                                   (tasks session) \<rparr>))"
proof -
  let ?row = "(patched d task)\<lparr> Task.updated_at := now \<rparr>"
  have sel: "execute_select session task_id owner = Inr [task]"
    using execute_select_owned [OF assms(1-5)] .
  have fits: "fits_columns task" using assms(2,3) by (simp add: columns_ok_def)
  have store: "store_row ?row = (if fits_columns ?row then Some ?row else None)"
    using store_row_within [OF within_patched [OF fits assms(6,7,8)]] .
  have idp: "Task.id ?row = Some task_id" using assms(4) by (simp add: patched_def)
  show ?thesis
    using idp
    by (simp add: patch_task_def verify_user_access_def sel setattr_all_model_dump
        update_commit_def store model_validate_def)
qed


lemma alice_session_columns_ok: "columns_ok alice_session"
  by (simp add: columns_ok_def alice_session_def alice_task_def fits_columns_def nul_free_def)

lemma parse_empty_body:
  "parse_TaskPartialUpdate empty_body =
     Inr \<lparr> TaskPartialUpdate.title = Unset, description = Unset, completed = Unset,
           priority = Unset, due_date = Unset \<rparr>"
  by (simp add: parse_TaskPartialUpdate_def empty_body_def Let_def err_def
      TaskPartialUpdate_title_field_def TaskPartialUpdate_description_field_def
      TaskPartialUpdate_priority_field_def)

text \<open>
  Claim C9.  A PATCH whose body supplies no field, on a task the caller owns, succeeds:
  the response is the task with every data field (and id, owner, \<open>created_at\<close>) as
  stored and \<open>updated_at\<close> set to the clock reading; the stored row changes in
  \<open>updated_at\<close> only.
\<close>

theorem patch_empty_body:
  assumes "primary_key session" and "columns_ok session" and "task \<in> set (tasks session)"
    and "Task.id task = Some task_id" and "Task.user_id task = owner"
  shows "patch_request owner task_id empty_body session owner now =
     (Inr \<lparr> TaskResponse.id = task_id, user_id = owner, title = Task.title task,
            description = Task.description task, completed = Task.completed task,
            priority = Task.priority task, due_date = Task.due_date task,
            created_at = Task.created_at task, updated_at = now \<rparr>,
      session\<lparr> tasks := map (\<lambda>r. if Task.id r = Some task_id
                                   then task\<lparr> Task.updated_at := now \<rparr> else r)
                             (tasks session) \<rparr>)"
proof -
  let ?d = "\<lparr> TaskPartialUpdate.title = Unset, description = Unset, completed = Unset,
              priority = Unset, due_date = Unset \<rparr>"
  have same: "patched ?d task = task" by (simp add: patched_def)
  have fits: "fits_columns task" using assms(2,3) by (simp add: columns_ok_def)
  then have fits': "fits_columns ((patched ?d task)\<lparr> Task.updated_at := now \<rparr>)"
    by (simp add: same fits_columns_def)
  have "patch_task owner task_id ?d session owner now =
           (model_validate (task\<lparr> Task.updated_at := now \<rparr>),
            session\<lparr> tasks := map (\<lambda>r. if Task.id r = Some task_id
                                         then task\<lparr> Task.updated_at := now \<rparr> else r)
                                   (tasks session) \<rparr>)"
    using patch_task_owned [OF assms(1-5), of ?d now] fits' by (simp add: same)
  then show ?thesis
    using assms(4,5) by (simp add: patch_request_def parse_empty_body model_validate_def)
qed

theorem patch_empty_body_witness:
  "patch_request ''alice'' 1 empty_body alice_session ''alice'' 9 =
     (Inr \<lparr> TaskResponse.id = 1, user_id = ''alice'', title = ''Buy milk'',
            description = None, completed = False, priority = ''high'', due_date = None,
            created_at = 5, updated_at = 9 \<rparr>,
      \<lparr> tasks = [alice_task\<lparr> Task.updated_at := 9 \<rparr>] \<rparr>)"
proof -
  have mem: "alice_task \<in> set (tasks alice_session)" by (simp add: alice_session_def)
  have key: "Task.id alice_task = Some 1" by (simp add: alice_task_def)
  have own: "Task.user_id alice_task = ''alice''" by (simp add: alice_task_def)
  show ?thesis
    using patch_empty_body [OF alice_session_primary_key alice_session_columns_ok mem key own,
        of 9]
    by (simp add: alice_session_def alice_task_def)
qed






section \<open>Create\<close>

lemma lower_allowed: "p \<in> set allowed \<Longrightarrow> lower p = p"
  by (auto simp: allowed_def lower_def lower_char_def)

lemma create_title_field:
  assumes "TaskCreate_title_field f = Inr t"
  shows "\<exists>v. f = Val v \<and> t = strip v \<and> length v \<le> 500 \<and> strip v \<noteq> []"
  using assms
  by (auto simp: TaskCreate_title_field_def TaskCreate_title_not_empty_def
      min_length_ok_def max_length_ok_def split: field.splits if_splits)

lemma description_field_Inr:
  assumes "description_field f = Inr g"
  shows "(f = Unset \<longrightarrow> g = None) \<and> (f = Null \<longrightarrow> g = None)
       \<and> (\<forall>v. f = Val v \<longrightarrow> g = Some v \<and> length v \<le> 5000)"
  using assms
  by (auto simp: description_field_def max_length_ok_def split: field.splits if_splits)

lemma create_priority_field:
  assumes "TaskCreate_priority_field f = Inr g"
  shows "(f = Unset \<longrightarrow> g = Some ''medium'') \<and> (f = Null \<longrightarrow> g = Some ''medium'')
       \<and> (\<forall>v. f = Val v \<longrightarrow> g = Some (lower v) \<and> lower v \<in> set allowed)"
  using assms
  by (auto simp: TaskCreate_priority_field_def TaskCreate_validate_priority_def
      split: field.splits if_splits)

lemma parse_TaskCreate_Inr:
  assumes "parse_TaskCreate body = Inr d"
  shows "TaskCreate_title_field (Body.title body) = Inr (TaskCreate.title d)"
    and "description_field (Body.description body) = Inr (TaskCreate.description d)"
    and "TaskCreate_priority_field (Body.priority body) = Inr (TaskCreate.priority d)"
    and "due_date_field (Body.due_date body) = Inr (TaskCreate.due_date d)"
  using assms
  by (auto simp: parse_TaskCreate_def Let_def err_def split: sum.splits if_splits)

lemma parse_TaskCreate_title_Inl:
  assumes "TaskCreate_title_field (Body.title body) = Inl fe"
  shows "\<exists>errs. parse_TaskCreate body = Inl (ValidationError ((''title'', fe) # errs))"
  using assms by (simp add: parse_TaskCreate_def Let_def err_def)

lemma parse_title_body:
  "parse_TaskCreate (title_body ''Buy milk'') =
     Inr \<lparr> TaskCreate.title = ''Buy milk'', description = None, priority = Some ''medium'',
           due_date = None \<rparr>"
  by (simp add: parse_TaskCreate_def title_body_def Let_def err_def TaskCreate_title_field_def
      TaskCreate_title_not_empty_def min_length_ok_def max_length_ok_def strip_def isspace_def
      description_field_def TaskCreate_priority_field_def due_date_field_def)

lemma varchar_take: "varchar n s = Some u \<Longrightarrow> u = take n s \<and> nul_free s"
  by (auto simp: varchar_def split: if_splits)

lemma varchar_long_owner: "varchar 255 long_owner = Some (replicate 255 (CHR ''a''))"
  by (simp add: varchar_def long_owner_def nul_free_def list_all_iff)

lemma long_owner_cut: "long_owner \<noteq> replicate 255 (CHR ''a'')"
proof
  assume "long_owner = replicate 255 (CHR ''a'')"
  then have "length long_owner = length (replicate 255 (CHR ''a''))" by simp
  then show False by (simp add: long_owner_def)
qed

text \<open>What \<open>create_task\<close> does with a validated body, by what the store can hold.\<close>

lemma create_task_validated:
  assumes "length (TaskCreate.title d) \<le> 500"
    and "\<forall>x. TaskCreate.description d = Some x \<longrightarrow> length x \<le> 5000"
    and "TaskCreate.priority d = Some q" and "q \<in> set allowed"
  shows "create_task owner d session owner now1 now2 new_id =
     (case varchar 255 owner of
        None \<Rightarrow> (Inl HTTP_500, session)
      | Some u \<Rightarrow>
          if \<not> nul_free (TaskCreate.title d)
             \<or> (\<exists>x. TaskCreate.description d = Some x \<and> \<not> nul_free x)
             \<or> \<not> in_int32 new_id \<or> Some new_id \<in> Task.id ` set (tasks session)
          then (Inl HTTP_500, session)
          else (Inr \<lparr> TaskResponse.id = new_id, user_id = u, title = TaskCreate.title d,
                      description = TaskCreate.description d, completed = False,
                      priority = q, due_date = TaskCreate.due_date d,
                      created_at = now1, updated_at = now2 \<rparr>,
                session\<lparr> tasks := tasks session @
                  [\<lparr> Task.id = Some new_id, user_id = u, title = TaskCreate.title d,
                     description = TaskCreate.description d, completed = False,
                     priority = q, due_date = TaskCreate.due_date d,
                     created_at = now1, updated_at = now2 \<rparr>] \<rparr>))"
proof -
  have qne: "q \<noteq> []" using assms(4) by (auto simp: allowed_def)
  have vq: "varchar 10 q = Some q"
    using varchar_fits [OF nul_free_allowed [OF assms(4)] allowed_length [OF assms(4)]] .
  have vt: "varchar 500 (TaskCreate.title d)
              = (if nul_free (TaskCreate.title d) then Some (TaskCreate.title d) else None)"
    using varchar_short [OF assms(1)] .
  show ?thesis
  proof (cases "TaskCreate.description d")
    case None
    then show ?thesis
      using qne
      by (simp add: create_task_def verify_user_access_def add_commit_def store_row_def
          assms(3) vq vt Let_def model_validate_def split: option.splits)
  next
    case (Some x)
    have vd: "varchar 5000 x = (if nul_free x then Some x else None)"
      using varchar_short [of x 5000] assms(2) Some by simp
    show ?thesis
      using qne
      by (simp add: create_task_def verify_user_access_def add_commit_def store_row_def
          assms(3) vq vt vd Some Let_def model_validate_def split: option.splits)
  qed
qed

lemma parse_TaskCreate_validated:
  assumes "parse_TaskCreate body = Inr d"
  shows "length (TaskCreate.title d) \<le> 500"
    and "\<forall>x. TaskCreate.description d = Some x \<longrightarrow> length x \<le> 5000"
    and "\<exists>q. TaskCreate.priority d = Some q \<and> q \<in> set allowed"
    and "\<forall>v. Body.title body = Val v \<longrightarrow> TaskCreate.title d = strip v"
    and "\<forall>x. TaskCreate.description d = Some x \<longrightarrow> Body.description body = Val x"
proof -
  note p = parse_TaskCreate_Inr [OF assms]
  obtain v where v: "Body.title body = Val v" "TaskCreate.title d = strip v" "length v \<le> 500"
    using create_title_field [OF p(1)] by auto
  show "length (TaskCreate.title d) \<le> 500" using v length_strip [of v] by simp
  show "\<forall>v. Body.title body = Val v \<longrightarrow> TaskCreate.title d = strip v" using v by simp
  show "\<forall>x. TaskCreate.description d = Some x \<longrightarrow> length x \<le> 5000"
    using description_field_Inr [OF p(2)] by (cases "Body.description body") auto
  show "\<forall>x. TaskCreate.description d = Some x \<longrightarrow> Body.description body = Val x"
    using description_field_Inr [OF p(2)] by (cases "Body.description body") auto
  show "\<exists>q. TaskCreate.priority d = Some q \<and> q \<in> set allowed"
    using create_priority_field [OF p(3)]
    by (cases "Body.priority body") (auto simp: allowed_def)
qed


text \<open>
  Claim C5, amended.  Whenever a create returns a task, the authenticated user is the
  path owner, the task's owner is the path \<open>user_id\<close> as the 255-character owner
  column holds it (the path \<open>user_id\<close> itself when it has at most 255 characters),
  \<open>completed\<close> is false, \<open>created_at\<close> is the first and \<open>updated_at\<close> the second
  clock reading of the construction of the row (equal exactly when the two readings
  are), and the task is a stored row.  A create by the authenticated owner with a
  validated body does return a task when the store can hold the row: an owner the
  column can hold, no U+0000 in title or description, and a fresh id of the id
  column.
\<close>

theorem create_owner_completed_timestamps:
  "(post_request owner body session current now1 now2 new_id = (Inr r, session') \<longrightarrow>
       current = owner
     \<and> TaskResponse.user_id r = take 255 owner
     \<and> (length owner \<le> 255 \<longrightarrow> TaskResponse.user_id r = owner)
     \<and> TaskResponse.completed r = False
     \<and> TaskResponse.created_at r = now1 \<and> TaskResponse.updated_at r = now2
     \<and> (TaskResponse.created_at r = TaskResponse.updated_at r \<longleftrightarrow> now1 = now2)
     \<and> TaskResponse.id r = new_id
     \<and> (\<exists>row\<in>set (tasks session'). model_validate row = Inr r))
   \<and> (parse_TaskCreate body = Inr d \<and> varchar 255 owner \<noteq> None
       \<and> (\<forall>v. Body.title body = Val v \<longrightarrow> nul_free v)
       \<and> (\<forall>v. Body.description body = Val v \<longrightarrow> nul_free v)
       \<and> in_int32 new_id \<and> Some new_id \<notin> Task.id ` set (tasks session) \<longrightarrow>
         (\<exists>r session'. post_request owner body session owner now1 now2 new_id
                          = (Inr r, session')))"
proof -
  have returned: "current = owner
     \<and> TaskResponse.user_id r = take 255 owner
     \<and> (length owner \<le> 255 \<longrightarrow> TaskResponse.user_id r = owner)
     \<and> TaskResponse.completed r = False
     \<and> TaskResponse.created_at r = now1 \<and> TaskResponse.updated_at r = now2
     \<and> (TaskResponse.created_at r = TaskResponse.updated_at r \<longleftrightarrow> now1 = now2)
     \<and> TaskResponse.id r = new_id
     \<and> (\<exists>row\<in>set (tasks session'). model_validate row = Inr r)"
    if run: "post_request owner body session current now1 now2 new_id = (Inr r, session')"
  proof -
    obtain e where parsed: "parse_TaskCreate body = Inr e"
      using run by (cases "parse_TaskCreate body") (simp_all add: post_request_def)
    then have ct: "create_task owner e session current now1 now2 new_id = (Inr r, session')"
      using run by (simp add: post_request_def)
    have gate: "current = owner"
    proof (rule ccontr)
      assume "current \<noteq> owner"
      then show False using ct by (simp add: create_task_def verify_user_access_def)
    qed
    note v = parse_TaskCreate_validated [OF parsed]
    obtain q where q: "TaskCreate.priority e = Some q" "q \<in> set allowed" using v(3) by blast
    note eq = create_task_validated [OF v(1,2) q, of owner session now1 now2 new_id]
    obtain u where u: "varchar 255 owner = Some u"
      using ct eq gate by (cases "varchar 255 owner") simp_all
    let ?bad = "\<not> nul_free (TaskCreate.title e)
             \<or> (\<exists>x. TaskCreate.description e = Some x \<and> \<not> nul_free x)
             \<or> \<not> in_int32 new_id \<or> Some new_id \<in> Task.id ` set (tasks session)"
    have nb: "\<not> ?bad"
    proof
      assume ?bad
      then have "create_task owner e session owner now1 now2 new_id = (Inl HTTP_500, session)"
        using eq u by simp
      then show False using ct gate by simp
    qed
    let ?row = "\<lparr> Task.id = Some new_id, user_id = u, title = TaskCreate.title e,
                     description = TaskCreate.description e, completed = False,
                     priority = q, due_date = TaskCreate.due_date e,
                     created_at = now1, updated_at = now2 \<rparr>"
    have res: "r = \<lparr> TaskResponse.id = new_id, user_id = u, title = TaskCreate.title e,
                      description = TaskCreate.description e, completed = False,
                      priority = q, due_date = TaskCreate.due_date e,
                      created_at = now1, updated_at = now2 \<rparr>"
      and ses: "session' = session\<lparr> tasks := tasks session @ [?row] \<rparr>"
    proof -
      have "create_task owner e session owner now1 now2 new_id =
              (Inr \<lparr> TaskResponse.id = new_id, user_id = u, title = TaskCreate.title e,
                      description = TaskCreate.description e, completed = False,
                      priority = q, due_date = TaskCreate.due_date e,
                      created_at = now1, updated_at = now2 \<rparr>,
               session\<lparr> tasks := tasks session @ [?row] \<rparr>)"
        using eq u nb by auto
      then show "r = \<lparr> TaskResponse.id = new_id, user_id = u, title = TaskCreate.title e,
                      description = TaskCreate.description e, completed = False,
                      priority = q, due_date = TaskCreate.due_date e,
                      created_at = now1, updated_at = now2 \<rparr>"
        and "session' = session\<lparr> tasks := tasks session @ [?row] \<rparr>"
        using ct gate by simp_all
    qed
    have cut: "u = take 255 owner" using varchar_take [OF u] by simp
    have mem: "?row \<in> set (tasks session')" by (simp add: ses)
    have mv: "model_validate ?row = Inr r" by (simp add: model_validate_def res)
    have stored: "\<exists>row\<in>set (tasks session'). model_validate row = Inr r"
      using mem mv by (rule bexI [rotated])
    show ?thesis using gate cut stored by (simp add: res)
  qed
  have succeeds: "\<exists>r session'. post_request owner body session owner now1 now2 new_id
                          = (Inr r, session')"
    if ok: "parse_TaskCreate body = Inr d \<and> varchar 255 owner \<noteq> None
       \<and> (\<forall>v. Body.title body = Val v \<longrightarrow> nul_free v)
       \<and> (\<forall>v. Body.description body = Val v \<longrightarrow> nul_free v)
       \<and> in_int32 new_id \<and> Some new_id \<notin> Task.id ` set (tasks session)"
  proof -
    have parsed: "parse_TaskCreate body = Inr d" using ok by simp
    note v = parse_TaskCreate_validated [OF parsed]
    obtain q where q: "TaskCreate.priority d = Some q" "q \<in> set allowed" using v(3) by blast
    note eq = create_task_validated [OF v(1,2) q, of owner session now1 now2 new_id]
    obtain u where u: "varchar 255 owner = Some u" using ok by auto
    obtain w where w: "Body.title body = Val w" "TaskCreate.title d = strip w"
      using create_title_field [OF parse_TaskCreate_Inr(1) [OF parsed]] by auto
    have nt: "nul_free (TaskCreate.title d)" using ok w nul_free_strip by simp
    have nd: "\<not> (\<exists>x. TaskCreate.description d = Some x \<and> \<not> nul_free x)"
      using v(5) ok by blast
    have "create_task owner d session owner now1 now2 new_id =
            (Inr \<lparr> TaskResponse.id = new_id, user_id = u, title = TaskCreate.title d,
                      description = TaskCreate.description d, completed = False,
                      priority = q, due_date = TaskCreate.due_date d,
                      created_at = now1, updated_at = now2 \<rparr>,
                session\<lparr> tasks := tasks session @
                  [\<lparr> Task.id = Some new_id, user_id = u, title = TaskCreate.title d,
                     description = TaskCreate.description d, completed = False,
                     priority = q, due_date = TaskCreate.due_date d,
                     created_at = now1, updated_at = now2 \<rparr>] \<rparr>)"
      using eq u nt nd ok by auto
    then show ?thesis by (simp add: post_request_def parsed)
  qed
  show ?thesis using returned succeeds by blast
qed

lemma nul_free_Buy_milk: "nul_free ''Buy milk''"
  by (simp add: nul_free_def)

theorem create_owner_completed_timestamps_witness:
  "\<exists>r session'. post_request ''u1'' (title_body ''Buy milk'') empty_session ''u1'' 1000 1000 1
                   = (Inr r, session')
       \<and> TaskResponse.user_id r = ''u1'' \<and> TaskResponse.completed r = False
       \<and> TaskResponse.created_at r = 1000 \<and> TaskResponse.updated_at r = 1000
       \<and> TaskResponse.id r = 1"
proof -
  let ?req = "post_request ''u1'' (title_body ''Buy milk'') empty_session ''u1'' 1000 1000 1"
  have ok: "parse_TaskCreate (title_body ''Buy milk'') =
              Inr \<lparr> TaskCreate.title = ''Buy milk'', description = None,
                    priority = Some ''medium'', due_date = None \<rparr>
       \<and> varchar 255 ''u1'' \<noteq> None
       \<and> (\<forall>v. Body.title (title_body ''Buy milk'') = Val v \<longrightarrow> nul_free v)
       \<and> (\<forall>v. Body.description (title_body ''Buy milk'') = Val v \<longrightarrow> nul_free v)
       \<and> in_int32 1 \<and> Some 1 \<notin> Task.id ` set (tasks empty_session)"
    using parse_title_body nul_free_Buy_milk
    by (simp add: varchar_def nul_free_def title_body_def in_int32_def empty_session_def)
  note inst = create_owner_completed_timestamps
    [where owner = "''u1''" and body = "title_body ''Buy milk''" and session = empty_session
      and ?now1.0 = 1000 and ?now2.0 = 1000 and new_id = 1]
  obtain r session' where run: "?req = (Inr r, session')"
    using inst [THEN conjunct2, THEN mp, OF ok] by (elim exE)
  have props: "''u1'' = ''u1''
     \<and> TaskResponse.user_id r = take 255 ''u1''
     \<and> (length ''u1'' \<le> 255 \<longrightarrow> TaskResponse.user_id r = ''u1'')
     \<and> TaskResponse.completed r = False
     \<and> TaskResponse.created_at r = 1000 \<and> TaskResponse.updated_at r = 1000
     \<and> (TaskResponse.created_at r = TaskResponse.updated_at r \<longleftrightarrow> (1000::int) = 1000)
     \<and> TaskResponse.id r = 1
     \<and> (\<exists>row\<in>set (tasks session'). model_validate row = Inr r)"
    by (rule inst [THEN conjunct1, THEN mp, OF run])
  show ?thesis
    by (rule exI [of _ r], rule exI [of _ session']) (use run props in simp)
qed

text \<open>
  Claim C5 as stated fails in two places.  Each timestamp column has its own
  \<^verbatim>\<open>default_factory=datetime.utcnow\<close>, so the row takes two readings of the clock:
  with readings 1000 and 1001 (one microsecond apart) the returned task has
  \<open>created_at = 1000\<close> and \<open>updated_at = 1001\<close>.  And the owner column holds 255
  characters: for a path \<open>user_id\<close> of 255 letters and a final space the row is stored
  with the space cut, and the returned owner is not the path \<open>user_id\<close>.
\<close>

theorem create_timestamps_counterexample:
  "post_request ''u1'' (title_body ''Buy milk'') empty_session ''u1'' 1000 1001 1 =
     (Inr \<lparr> TaskResponse.id = 1, user_id = ''u1'', title = ''Buy milk'', description = None,
            completed = False, priority = ''medium'', due_date = None,
            created_at = 1000, updated_at = 1001 \<rparr>,
      \<lparr> tasks = [\<lparr> Task.id = Some 1, user_id = ''u1'', title = ''Buy milk'',
                   description = None, completed = False, priority = ''medium'',
                   due_date = None, created_at = 1000, updated_at = 1001 \<rparr>] \<rparr>)
   \<and> (1000 :: int) \<noteq> 1001
   \<and> post_request long_owner (title_body ''Buy milk'') empty_session long_owner 1000 1000 1 =
     (Inr \<lparr> TaskResponse.id = 1, user_id = replicate 255 (CHR ''a''), title = ''Buy milk'',
            description = None, completed = False, priority = ''medium'', due_date = None,
            created_at = 1000, updated_at = 1000 \<rparr>,
      \<lparr> tasks = [\<lparr> Task.id = Some 1, user_id = replicate 255 (CHR ''a''),
                   title = ''Buy milk'', description = None, completed = False,
                   priority = ''medium'', due_date = None,
                   created_at = 1000, updated_at = 1000 \<rparr>] \<rparr>)
   \<and> long_owner \<noteq> replicate 255 (CHR ''a'')"
proof -
  have short: "varchar 255 ''u1'' = Some ''u1''" by (simp add: varchar_def nul_free_def)
  have t: "varchar 500 ''Buy milk'' = Some ''Buy milk''" by (simp add: varchar_def nul_free_def)
  have m: "varchar 10 ''medium'' = Some ''medium''" by (simp add: varchar_def nul_free_def)
  have a: "post_request ''u1'' (title_body ''Buy milk'') empty_session ''u1'' 1000 1001 1 =
     (Inr \<lparr> TaskResponse.id = 1, user_id = ''u1'', title = ''Buy milk'', description = None,
            completed = False, priority = ''medium'', due_date = None,
            created_at = 1000, updated_at = 1001 \<rparr>,
      \<lparr> tasks = [\<lparr> Task.id = Some 1, user_id = ''u1'', title = ''Buy milk'',
                   description = None, completed = False, priority = ''medium'',
                   due_date = None, created_at = 1000, updated_at = 1001 \<rparr>] \<rparr>)"
    by (simp add: post_request_def parse_title_body create_task_def verify_user_access_def
        add_commit_def store_row_def short t m in_int32_def Let_def model_validate_def
        empty_session_def)
  have b: "post_request long_owner (title_body ''Buy milk'') empty_session long_owner 1000 1000 1 =
     (Inr \<lparr> TaskResponse.id = 1, user_id = replicate 255 (CHR ''a''), title = ''Buy milk'',
            description = None, completed = False, priority = ''medium'', due_date = None,
            created_at = 1000, updated_at = 1000 \<rparr>,
      \<lparr> tasks = [\<lparr> Task.id = Some 1, user_id = replicate 255 (CHR ''a''),
                   title = ''Buy milk'', description = None, completed = False,
                   priority = ''medium'', due_date = None,
                   created_at = 1000, updated_at = 1000 \<rparr>] \<rparr>)"
    by (simp add: post_request_def parse_title_body create_task_def verify_user_access_def
        add_commit_def store_row_def varchar_long_owner t m in_int32_def Let_def
        model_validate_def empty_session_def)
  show ?thesis using a b long_owner_cut by simp
qed


section \<open>Title validation\<close>

lemma bad_title_cases:
  assumes "t = [] \<or> (\<forall>c\<in>set t. isspace c) \<or> 500 < length t"
  shows "\<exists>fe. TaskCreate_title_field (Val t) = Inl fe"
    and "\<exists>fe. TaskUpdate_title_field (Val t) = Inl fe"
    and "\<exists>fe. TaskPartialUpdate_title_field (Val t) = Inl fe"
proof -
  have "t = [] \<or> strip t = [] \<or> 500 < length t"
    using assms strip_Nil_iff [of t] by blast
  then show "\<exists>fe. TaskCreate_title_field (Val t) = Inl fe"
    and "\<exists>fe. TaskUpdate_title_field (Val t) = Inl fe"
    and "\<exists>fe. TaskPartialUpdate_title_field (Val t) = Inl fe"
    by (auto simp: TaskCreate_title_field_def TaskCreate_title_not_empty_def
        TaskUpdate_title_field_def TaskUpdate_title_not_empty_def
        TaskPartialUpdate_title_field_def TaskPartialUpdate_title_not_empty_def
        min_length_ok_def max_length_ok_def)
qed

lemma good_title_cases:
  assumes "\<not> (\<forall>c\<in>set t. isspace c)" and "length t \<le> 500"
  shows "TaskCreate_title_field (Val t) = Inr (strip t)"
    and "TaskUpdate_title_field (Val t) = Inr (strip t)"
    and "TaskPartialUpdate_title_field (Val t) = Inr (Val (strip t))"
proof -
  have ne: "strip t \<noteq> []" using assms(1) strip_Nil_iff [of t] by blast
  have ne': "t \<noteq> []" "Suc 0 \<le> length t" using assms(1) by (cases t; auto)+
  show "TaskCreate_title_field (Val t) = Inr (strip t)"
    and "TaskUpdate_title_field (Val t) = Inr (strip t)"
    and "TaskPartialUpdate_title_field (Val t) = Inr (Val (strip t))"
    using ne ne' assms(2)
    by (auto simp: TaskCreate_title_field_def TaskCreate_title_not_empty_def
        TaskUpdate_title_field_def TaskUpdate_title_not_empty_def
        TaskPartialUpdate_title_field_def TaskPartialUpdate_title_not_empty_def
        min_length_ok_def max_length_ok_def supplied_def)
qed

lemma parse_TaskUpdate_title_Inl:
  assumes "TaskUpdate_title_field (Body.title body) = Inl fe"
  shows "\<exists>errs. parse_TaskUpdate body = Inl (ValidationError ((''title'', fe) # errs))"
  using assms by (simp add: parse_TaskUpdate_def Let_def err_def)

lemma parse_TaskPartialUpdate_title_Inl:
  assumes "TaskPartialUpdate_title_field (Body.title body) = Inl fe"
  shows "\<exists>errs. parse_TaskPartialUpdate body = Inl (ValidationError ((''title'', fe) # errs))"
  using assms by (simp add: parse_TaskPartialUpdate_def Let_def err_def)

text \<open>
  The rules of title validation, for every title: an empty, whitespace-only or too
  long title makes each kind of request fail with a validation error on \<open>title\<close>,
  which is answered with status 422, the session untouched.
\<close>

lemma title_rejected:
  assumes "Body.title body = Val t"
    and "t = [] \<or> (\<forall>c\<in>set t. isspace c) \<or> 500 < length t"
  shows "\<exists>errs. post_request owner body session current now1 now2 new_id
                 = (Inl (ValidationError errs), session)
               \<and> ''title'' \<in> fst ` set errs \<and> error_status (ValidationError errs) = 422"
    and "\<exists>errs. put_request owner task_id body session current now
                 = (Inl (ValidationError errs), session)
               \<and> ''title'' \<in> fst ` set errs \<and> error_status (ValidationError errs) = 422"
    and "\<exists>errs. patch_request owner task_id body session current now
                 = (Inl (ValidationError errs), session)
               \<and> ''title'' \<in> fst ` set errs \<and> error_status (ValidationError errs) = 422"
proof -
  obtain e1 where "TaskCreate_title_field (Body.title body) = Inl e1"
    using bad_title_cases(1) [OF assms(2)] assms(1) by auto
  then obtain errs1 where
    p1: "parse_TaskCreate body = Inl (ValidationError ((''title'', e1) # errs1))"
    using parse_TaskCreate_title_Inl by blast
  obtain e2 where "TaskUpdate_title_field (Body.title body) = Inl e2"
    using bad_title_cases(2) [OF assms(2)] assms(1) by auto
  then obtain errs2 where
    p2: "parse_TaskUpdate body = Inl (ValidationError ((''title'', e2) # errs2))"
    using parse_TaskUpdate_title_Inl by blast
  obtain e3 where "TaskPartialUpdate_title_field (Body.title body) = Inl e3"
    using bad_title_cases(3) [OF assms(2)] assms(1) by auto
  then obtain errs3 where
    p3: "parse_TaskPartialUpdate body = Inl (ValidationError ((''title'', e3) # errs3))"
    using parse_TaskPartialUpdate_title_Inl by blast
  show "\<exists>errs. post_request owner body session current now1 now2 new_id
                 = (Inl (ValidationError errs), session)
               \<and> ''title'' \<in> fst ` set errs \<and> error_status (ValidationError errs) = 422"
    by (rule exI [of _ "(''title'', e1) # errs1"]) (simp add: post_request_def p1 error_status_def)
  show "\<exists>errs. put_request owner task_id body session current now
                 = (Inl (ValidationError errs), session)
               \<and> ''title'' \<in> fst ` set errs \<and> error_status (ValidationError errs) = 422"
    by (rule exI [of _ "(''title'', e2) # errs2"]) (simp add: put_request_def p2 error_status_def)
  show "\<exists>errs. patch_request owner task_id body session current now
                 = (Inl (ValidationError errs), session)
               \<and> ''title'' \<in> fst ` set errs \<and> error_status (ValidationError errs) = 422"
    by (rule exI [of _ "(''title'', e3) # errs3"]) (simp add: patch_request_def p3 error_status_def)
qed

text \<open>
  A title with content and at most 500 characters is accepted in each kind of request
  when the store can hold the row, and what is returned and stored is the stripped
  title; the answer of the create also has the validated priority.
\<close>

lemma create_stores_validated:
  assumes "\<not> (\<forall>c\<in>set t. isspace c)" and "length t \<le> 500" and "nul_free t"
    and "nul_free owner" and "length owner \<le> 255"
    and "in_int32 new_id" and "Some new_id \<notin> Task.id ` set (tasks session)"
    and "body = title_body t \<and> q = ''medium''
         \<or> body = priority_body t p \<and> lower p \<in> set allowed \<and> q = lower p"
  shows "post_request owner body session owner now1 now2 new_id =
     (Inr \<lparr> TaskResponse.id = new_id, user_id = owner, title = strip t,
            description = None, completed = False, priority = q, due_date = None,
            created_at = now1, updated_at = now2 \<rparr>,
      session\<lparr> tasks := tasks session @
        [\<lparr> Task.id = Some new_id, user_id = owner, title = strip t,
           description = None, completed = False, priority = q, due_date = None,
           created_at = now1, updated_at = now2 \<rparr>] \<rparr>)"
proof -
  let ?d = "\<lparr> TaskCreate.title = strip t, description = None, priority = Some q,
              due_date = None \<rparr>"
  have fields: "description_field Unset = Inr None" "due_date_field Unset = Inr None"
    "TaskCreate_priority_field Unset = Inr (Some ''medium'')"
    by (simp_all add: description_field_def due_date_field_def TaskCreate_priority_field_def)
  have q: "q \<in> set allowed" using assms(8) by (auto simp: allowed_def)
  have p: "parse_TaskCreate body = Inr ?d"
    using assms(8)
    by (auto simp: parse_TaskCreate_def title_body_def priority_body_def Let_def err_def fields
        good_title_cases(1) [OF assms(1,2)] TaskCreate_priority_field_def
        TaskCreate_validate_priority_def)
  have len: "length (TaskCreate.title ?d) \<le> 500" using length_strip [of t] assms(2) by simp
  have own: "varchar 255 owner = Some owner" using varchar_fits [OF assms(4,5)] .
  have run: "create_task owner ?d session owner now1 now2 new_id =
     (Inr \<lparr> TaskResponse.id = new_id, user_id = owner, title = strip t,
            description = None, completed = False, priority = q, due_date = None,
            created_at = now1, updated_at = now2 \<rparr>,
      session\<lparr> tasks := tasks session @
        [\<lparr> Task.id = Some new_id, user_id = owner, title = strip t,
           description = None, completed = False, priority = q, due_date = None,
           created_at = now1, updated_at = now2 \<rparr>] \<rparr>)"
    using create_task_validated [of ?d q owner session now1 now2 new_id, OF len _ _ q]
      nul_free_strip [OF assms(3)] assms(6,7)
    by (simp add: own)
  show ?thesis unfolding post_request_def p using run by simp
qed

lemma put_stores_stripped:
  assumes "primary_key session" and "columns_ok session" and "task \<in> set (tasks session)"
    and "Task.id task = Some task_id" and "Task.user_id task = owner"
    and "\<not> (\<forall>c\<in>set t. isspace c)" and "length t \<le> 500" and "nul_free t"
    and "row = task\<lparr> Task.title := strip t, Task.description := None,
                      Task.completed := False, Task.priority := ''medium'',
                      Task.due_date := None, Task.updated_at := now \<rparr>"
  shows "put_request owner task_id (put_body\<lparr> Body.title := Val t \<rparr>) session owner now =
     (model_validate row,
      session\<lparr> tasks := map (\<lambda>r. if Task.id r = Some task_id then row else r)
                             (tasks session) \<rparr>)"
    and "\<exists>r. model_validate row = Inr r \<and> TaskResponse.title r = strip t"
proof -
  let ?d = "\<lparr> TaskUpdate.title = strip t, description = None, completed = False,
              priority = ''medium'', due_date = None \<rparr>"
  have fields: "description_field Unset = Inr None" "due_date_field Unset = Inr None"
    "TaskUpdate_priority_field Unset = Inr ''medium''"
    "TaskUpdate_completed_field (Val False) = Inr False"
    by (simp_all add: description_field_def due_date_field_def TaskUpdate_priority_field_def
        TaskUpdate_completed_field_def)
  have p: "parse_TaskUpdate (put_body\<lparr> Body.title := Val t \<rparr>) = Inr ?d"
    by (simp add: parse_TaskUpdate_def put_body_def Let_def err_def fields
        good_title_cases(2) [OF assms(6,7)])
  have sel: "execute_select session task_id owner = Inr [task]"
    using execute_select_owned [OF assms(1-5)] .
  have fits: "fits_columns task" using assms(2,3) by (simp add: columns_ok_def)
  have "fits_columns row"
    using fits nul_free_strip [OF assms(8)] length_strip [of t] assms(7)
    by (simp add: fits_columns_def assms(9) nul_free_def)
  then have store: "store_row row = Some row" by (rule store_row_fits)
  have idr: "Task.id row = Some task_id" using assms(4) by (simp add: assms(9))
  show "put_request owner task_id (put_body\<lparr> Body.title := Val t \<rparr>) session owner now =
     (model_validate row,
      session\<lparr> tasks := map (\<lambda>r. if Task.id r = Some task_id then row else r)
                             (tasks session) \<rparr>)"
    using store idr
    by (simp add: put_request_def p update_task_def verify_user_access_def sel
        update_commit_def assms(9) [symmetric] model_validate_def)
  show "\<exists>r. model_validate row = Inr r \<and> TaskResponse.title r = strip t"
    using idr by (simp add: model_validate_def assms(9))
qed

lemma patch_stores_stripped:
  assumes "primary_key session" and "columns_ok session" and "task \<in> set (tasks session)"
    and "Task.id task = Some task_id" and "Task.user_id task = owner"
    and "\<not> (\<forall>c\<in>set t. isspace c)" and "length t \<le> 500" and "nul_free t"
    and "row = task\<lparr> Task.title := strip t, Task.updated_at := now \<rparr>"
  shows "patch_request owner task_id (title_body t) session owner now =
     (model_validate row,
      session\<lparr> tasks := map (\<lambda>r. if Task.id r = Some task_id then row else r)
                             (tasks session) \<rparr>)"
    and "\<exists>r. model_validate row = Inr r \<and> TaskResponse.title r = strip t"
proof -
  let ?d = "\<lparr> TaskPartialUpdate.title = Val (strip t), description = Unset,
              completed = Unset, priority = Unset, due_date = Unset \<rparr>"
  have p: "parse_TaskPartialUpdate (title_body t) = Inr ?d"
    by (simp add: parse_TaskPartialUpdate_def title_body_def Let_def err_def
        good_title_cases(3) [OF assms(6,7)] TaskPartialUpdate_description_field_def
        TaskPartialUpdate_priority_field_def)
  have row: "(patched ?d task)\<lparr> Task.updated_at := now \<rparr> = row"
    by (simp add: patched_def assms(9))
  have fits: "fits_columns task" using assms(2,3) by (simp add: columns_ok_def)
  have fr: "fits_columns row"
    using fits nul_free_strip [OF assms(8)] length_strip [of t] assms(7)
    by (simp add: fits_columns_def assms(9))
  have len: "\<forall>v. TaskPartialUpdate.title ?d = Val v \<longrightarrow> length v \<le> 500"
    using length_strip [of t] assms(7) by simp
  show "patch_request owner task_id (title_body t) session owner now =
     (model_validate row,
      session\<lparr> tasks := map (\<lambda>r. if Task.id r = Some task_id then row else r)
                             (tasks session) \<rparr>)"
    using patch_task_owned [OF assms(1-5) len, of now] fr
    by (simp add: patch_request_def p row)
  show "\<exists>r. model_validate row = Inr r \<and> TaskResponse.title r = strip t"
    using assms(4) by (simp add: model_validate_def assms(9))
qed

lemma strip_Buy_milk: "strip ''  Buy milk '' = ''Buy milk''"
  by (simp add: strip_def isspace_def)

lemma strip_Buy_bread: "strip ''  Buy bread '' = ''Buy bread''"
  by (simp add: strip_def isspace_def)

text \<open>
  Claim C7 at concrete requests.  An empty, a whitespace-only and a 501-character
  title are each refused with a validation error on \<open>title\<close>, in a create and in both
  updates, and the session is untouched: but the status of that answer is 422, where
  the claim, the handlers' docstrings and the tests say 400.  The rest of the claim
  holds: a title with blanks around it is accepted by the create, by the PUT and by
  the PATCH, and is returned and stored stripped.
\<close>

theorem invalid_title_answered_422:
  "post_request ''u1'' (title_body []) empty_session ''u1'' 1 2 1
     = (Inl (ValidationError [(''title'', StringTooShort)]), empty_session)
   \<and> error_status (ValidationError [(''title'', StringTooShort)]) = 422
   \<and> post_request ''u1'' (title_body ''   '') empty_session ''u1'' 1 2 1
     = (Inl (ValidationError [(''title'', ValueError ''Title cannot be empty or whitespace'')]),
        empty_session)
   \<and> error_status
        (ValidationError [(''title'', ValueError ''Title cannot be empty or whitespace'')]) = 422
   \<and> post_request ''u1'' (title_body (replicate 501 (CHR ''x''))) empty_session ''u1'' 1 2 1
     = (Inl (ValidationError [(''title'', StringTooLong)]), empty_session)
   \<and> error_status (ValidationError [(''title'', StringTooLong)]) = 422
   \<and> put_request ''alice'' 1 (title_body []) alice_session ''alice'' 9
     = (Inl (ValidationError [(''title'', StringTooShort), (''completed'', Missing)]),
        alice_session)
   \<and> error_status (ValidationError [(''title'', StringTooShort), (''completed'', Missing)]) = 422
   \<and> patch_request ''alice'' 1 (title_body []) alice_session ''alice'' 9
     = (Inl (ValidationError [(''title'', StringTooShort)]), alice_session)
   \<and> post_request ''u1'' (title_body ''  Buy milk '') empty_session ''u1'' 1 2 1 =
     (Inr \<lparr> TaskResponse.id = 1, user_id = ''u1'', title = ''Buy milk'', description = None,
            completed = False, priority = ''medium'', due_date = None,
            created_at = 1, updated_at = 2 \<rparr>,
      \<lparr> tasks = [\<lparr> Task.id = Some 1, user_id = ''u1'', title = ''Buy milk'',
                   description = None, completed = False, priority = ''medium'',
                   due_date = None, created_at = 1, updated_at = 2 \<rparr>] \<rparr>)
   \<and> put_request ''alice'' 1 (put_body\<lparr> Body.title := Val ''  Buy bread '' \<rparr>)
       alice_session ''alice'' 9 =
     (Inr \<lparr> TaskResponse.id = 1, user_id = ''alice'', title = ''Buy bread'',
            description = None, completed = False, priority = ''medium'', due_date = None,
            created_at = 5, updated_at = 9 \<rparr>,
      \<lparr> tasks = [\<lparr> Task.id = Some 1, user_id = ''alice'', title = ''Buy bread'',
                   description = None, completed = False, priority = ''medium'',
                   due_date = None, created_at = 5, updated_at = 9 \<rparr>] \<rparr>)
   \<and> patch_request ''alice'' 1 (title_body ''  Buy bread '') alice_session ''alice'' 9 =
     (Inr \<lparr> TaskResponse.id = 1, user_id = ''alice'', title = ''Buy bread'',
            description = None, completed = False, priority = ''high'', due_date = None,
            created_at = 5, updated_at = 9 \<rparr>,
      \<lparr> tasks = [\<lparr> Task.id = Some 1, user_id = ''alice'', title = ''Buy bread'',
                   description = None, completed = False, priority = ''high'',
                   due_date = None, created_at = 5, updated_at = 9 \<rparr>] \<rparr>)
   \<and> Task.title alice_task = ''Buy milk''"
proof -
  have blank: "strip ''   '' = []" by (simp add: strip_def isspace_def)
  have create_fields: "description_field Unset = Inr None"
    "TaskCreate_priority_field Unset = Inr (Some ''medium'')" "due_date_field Unset = Inr None"
    by (simp_all add: description_field_def TaskCreate_priority_field_def due_date_field_def)
  have a: "post_request ''u1'' (title_body []) empty_session ''u1'' 1 2 1
     = (Inl (ValidationError [(''title'', StringTooShort)]), empty_session)"
    by (simp add: post_request_def parse_TaskCreate_def title_body_def Let_def err_def
        create_fields TaskCreate_title_field_def min_length_ok_def)
  have b: "post_request ''u1'' (title_body ''   '') empty_session ''u1'' 1 2 1
     = (Inl (ValidationError [(''title'', ValueError ''Title cannot be empty or whitespace'')]),
        empty_session)"
    by (simp add: post_request_def parse_TaskCreate_def title_body_def Let_def err_def
        create_fields TaskCreate_title_field_def TaskCreate_title_not_empty_def blank
        min_length_ok_def max_length_ok_def)
  have c: "post_request ''u1'' (title_body (replicate 501 (CHR ''x''))) empty_session ''u1'' 1 2 1
     = (Inl (ValidationError [(''title'', StringTooLong)]), empty_session)"
    by (simp add: post_request_def parse_TaskCreate_def title_body_def Let_def err_def
        create_fields TaskCreate_title_field_def min_length_ok_def max_length_ok_def)
  have d: "put_request ''alice'' 1 (title_body []) alice_session ''alice'' 9
     = (Inl (ValidationError [(''title'', StringTooShort), (''completed'', Missing)]),
        alice_session)"
    by (simp add: put_request_def parse_TaskUpdate_def title_body_def Let_def err_def
        TaskUpdate_title_field_def min_length_ok_def description_field_def
        TaskUpdate_completed_field_def TaskUpdate_priority_field_def due_date_field_def)
  have e: "patch_request ''alice'' 1 (title_body []) alice_session ''alice'' 9
     = (Inl (ValidationError [(''title'', StringTooShort)]), alice_session)"
    by (simp add: patch_request_def parse_TaskPartialUpdate_def title_body_def Let_def err_def
        TaskPartialUpdate_title_field_def min_length_ok_def
        TaskPartialUpdate_description_field_def TaskPartialUpdate_priority_field_def)
  have p: "parse_TaskCreate (title_body ''  Buy milk '') =
     Inr \<lparr> TaskCreate.title = ''Buy milk'', description = None, priority = Some ''medium'',
           due_date = None \<rparr>"
    by (simp add: parse_TaskCreate_def title_body_def Let_def err_def create_fields
        TaskCreate_title_field_def TaskCreate_title_not_empty_def strip_Buy_milk
        min_length_ok_def max_length_ok_def)
  have f: "post_request ''u1'' (title_body ''  Buy milk '') empty_session ''u1'' 1 2 1 =
     (Inr \<lparr> TaskResponse.id = 1, user_id = ''u1'', title = ''Buy milk'', description = None,
            completed = False, priority = ''medium'', due_date = None,
            created_at = 1, updated_at = 2 \<rparr>,
      \<lparr> tasks = [\<lparr> Task.id = Some 1, user_id = ''u1'', title = ''Buy milk'',
                   description = None, completed = False, priority = ''medium'',
                   due_date = None, created_at = 1, updated_at = 2 \<rparr>] \<rparr>)"
    by (simp add: post_request_def p create_task_def verify_user_access_def
        add_commit_def store_row_def varchar_def nul_free_def in_int32_def Let_def
        model_validate_def empty_session_def)
  have pu: "parse_TaskUpdate (put_body\<lparr> Body.title := Val ''  Buy bread '' \<rparr>) =
     Inr \<lparr> TaskUpdate.title = ''Buy bread'', description = None, completed = False,
           priority = ''medium'', due_date = None \<rparr>"
    by (simp add: parse_TaskUpdate_def put_body_def Let_def err_def
        TaskUpdate_title_field_def TaskUpdate_title_not_empty_def strip_Buy_bread
        min_length_ok_def max_length_ok_def description_field_def
        TaskUpdate_completed_field_def TaskUpdate_priority_field_def due_date_field_def)
  have g: "put_request ''alice'' 1 (put_body\<lparr> Body.title := Val ''  Buy bread '' \<rparr>)
       alice_session ''alice'' 9 =
     (Inr \<lparr> TaskResponse.id = 1, user_id = ''alice'', title = ''Buy bread'',
            description = None, completed = False, priority = ''medium'', due_date = None,
            created_at = 5, updated_at = 9 \<rparr>,
      \<lparr> tasks = [\<lparr> Task.id = Some 1, user_id = ''alice'', title = ''Buy bread'',
                   description = None, completed = False, priority = ''medium'',
                   due_date = None, created_at = 5, updated_at = 9 \<rparr>] \<rparr>)"
    by (simp add: put_request_def pu update_task_def verify_user_access_def
        execute_select_def in_int32_def nul_free_def select_task_def
        alice_session_def alice_task_def update_commit_def store_row_def varchar_def
        model_validate_def)
  have pp: "parse_TaskPartialUpdate (title_body ''  Buy bread '') =
     Inr \<lparr> TaskPartialUpdate.title = Val ''Buy bread'', description = Unset,
           completed = Unset, priority = Unset, due_date = Unset \<rparr>"
    by (simp add: parse_TaskPartialUpdate_def title_body_def Let_def err_def
        TaskPartialUpdate_title_field_def TaskPartialUpdate_title_not_empty_def
        strip_Buy_bread min_length_ok_def max_length_ok_def supplied_def
        TaskPartialUpdate_description_field_def TaskPartialUpdate_priority_field_def)
  have h: "patch_request ''alice'' 1 (title_body ''  Buy bread '') alice_session ''alice'' 9 =
     (Inr \<lparr> TaskResponse.id = 1, user_id = ''alice'', title = ''Buy bread'',
            description = None, completed = False, priority = ''high'', due_date = None,
            created_at = 5, updated_at = 9 \<rparr>,
      \<lparr> tasks = [\<lparr> Task.id = Some 1, user_id = ''alice'', title = ''Buy bread'',
                   description = None, completed = False, priority = ''high'',
                   due_date = None, created_at = 5, updated_at = 9 \<rparr>] \<rparr>)"
    by (simp add: patch_request_def pp patch_task_def verify_user_access_def
        execute_select_def in_int32_def nul_free_def
        select_task_def alice_session_def alice_task_def model_dump_exclude_unset_def
        dump_field_def setattr_def update_commit_def store_row_def varchar_def
        model_validate_def)
  have i: "Task.title alice_task = ''Buy milk''" by (simp add: alice_task_def)
  show ?thesis
    by (intro conjI) (rule a b c d e f g h i | simp add: error_status_def)+
qed


section \<open>Priority validation\<close>

lemma ci_equal_allowed: "(\<exists>p\<in>set allowed. ci_equal v p) \<longleftrightarrow> lower v \<in> set allowed"
proof
  assume "\<exists>p\<in>set allowed. ci_equal v p"
  then obtain p where p: "p \<in> set allowed" "lower v = lower p" by (auto simp: ci_equal_def)
  then show "lower v \<in> set allowed" using lower_allowed [OF p(1)] by simp
next
  assume a: "lower v \<in> set allowed"
  have "ci_equal v (lower v)" using lower_allowed [OF a] by (simp add: ci_equal_def)
  then show "\<exists>p\<in>set allowed. ci_equal v p" using a by blast
qed

lemma lower_HiGh: "lower ''HiGh'' = ''high''"
  by code_simp

lemma lower_urgent: "lower ''urgent'' = ''urgent''"
  by code_simp

text \<open>
  The rule of priority validation in a create, for every string: it is accepted if
  and only if it matches one of the allowed values case-insensitively, and then it is
  validated to its lowercase form, the allowed value it matches.
\<close>

lemma priority_accepted_iff:
  "((\<exists>p. TaskCreate_priority_field (Val v) = Inr p) \<longleftrightarrow> (\<exists>p\<in>set allowed. ci_equal v p))
   \<and> ((\<exists>p\<in>set allowed. ci_equal v p) \<longrightarrow>
         TaskCreate_priority_field (Val v) = Inr (Some (lower v))
         \<and> lower v \<in> set allowed \<and> ci_equal v (lower v))
   \<and> TaskCreate_priority_field Unset = Inr (Some ''medium'')"
proof -
  have field: "TaskCreate_priority_field (Val v) =
                 (if lower v \<in> set allowed then Inr (Some (lower v))
                  else Inl (ValueError ''Priority must be one of: low, medium, high''))"
    by (simp add: TaskCreate_priority_field_def TaskCreate_validate_priority_def)
  have iff: "(\<exists>p. TaskCreate_priority_field (Val v) = Inr p) \<longleftrightarrow> (\<exists>p\<in>set allowed. ci_equal v p)"
    unfolding ci_equal_allowed field by simp
  have accepted: "TaskCreate_priority_field (Val v) = Inr (Some (lower v))
         \<and> lower v \<in> set allowed \<and> ci_equal v (lower v)"
    if "\<exists>p\<in>set allowed. ci_equal v p"
  proof -
    have a: "lower v \<in> set allowed" using that ci_equal_allowed by blast
    have "ci_equal v (lower v)" using lower_allowed [OF a] by (simp add: ci_equal_def)
    then show ?thesis using a field by simp
  qed
  have unset: "TaskCreate_priority_field Unset = Inr (Some ''medium'')"
    by (simp add: TaskCreate_priority_field_def)
  show ?thesis using iff accepted unset by blast
qed

lemma title_field_Buy_milk: "TaskCreate_title_field (Val ''Buy milk'') = Inr ''Buy milk''"
  by (simp add: TaskCreate_title_field_def TaskCreate_title_not_empty_def strip_def isspace_def
      min_length_ok_def max_length_ok_def)

text \<open>
  A priority that matches none of the allowed values makes the create fail with a
  validation error on \<open>priority\<close>, answered with status 422, the session untouched.
\<close>

lemma priority_rejected:
  assumes "lower p \<notin> set allowed"
  shows "\<exists>errs. post_request owner (priority_body t p) session current now1 now2 new_id
                 = (Inl (ValidationError errs), session)
               \<and> ''priority'' \<in> fst ` set errs \<and> error_status (ValidationError errs) = 422"
proof -
  have "TaskCreate_priority_field (Val p)
          = Inl (ValueError ''Priority must be one of: low, medium, high'')"
    using assms by (simp add: TaskCreate_priority_field_def TaskCreate_validate_priority_def)
  then have "\<exists>errs. parse_TaskCreate (priority_body t p) = Inl (ValidationError errs)
                \<and> ''priority'' \<in> fst ` set errs"
    by (auto simp: parse_TaskCreate_def priority_body_def Let_def err_def)
  then show ?thesis by (auto simp: post_request_def error_status_def)
qed

text \<open>
  Claim C8 at concrete requests.  A create with priority \<open>urgent\<close> is refused with a
  validation error on \<open>priority\<close> and the session is untouched: but the status of
  that answer is 422, where the claim, the handler's docstring and the tests say 400.
  The rest of the claim holds: \<open>HiGh\<close> is accepted and stored as \<open>high\<close>, and a create
  without priority stores \<open>medium\<close>.
\<close>

theorem invalid_priority_answered_422:
  "post_request ''u1'' (priority_body ''Buy milk'' ''urgent'') empty_session ''u1'' 1 2 1
     = (Inl (ValidationError
               [(''priority'', ValueError ''Priority must be one of: low, medium, high'')]),
        empty_session)
   \<and> error_status
        (ValidationError
           [(''priority'', ValueError ''Priority must be one of: low, medium, high'')]) = 422
   \<and> post_request ''u1'' (priority_body ''Buy milk'' ''HiGh'') empty_session ''u1'' 1 2 1 =
     (Inr \<lparr> TaskResponse.id = 1, user_id = ''u1'', title = ''Buy milk'', description = None,
            completed = False, priority = ''high'', due_date = None,
            created_at = 1, updated_at = 2 \<rparr>,
      \<lparr> tasks = [\<lparr> Task.id = Some 1, user_id = ''u1'', title = ''Buy milk'',
                   description = None, completed = False, priority = ''high'',
                   due_date = None, created_at = 1, updated_at = 2 \<rparr>] \<rparr>)
   \<and> post_request ''u1'' (title_body ''Buy milk'') empty_session ''u1'' 1 2 1 =
     (Inr \<lparr> TaskResponse.id = 1, user_id = ''u1'', title = ''Buy milk'', description = None,
            completed = False, priority = ''medium'', due_date = None,
            created_at = 1, updated_at = 2 \<rparr>,
      \<lparr> tasks = [\<lparr> Task.id = Some 1, user_id = ''u1'', title = ''Buy milk'',
                   description = None, completed = False, priority = ''medium'',
                   due_date = None, created_at = 1, updated_at = 2 \<rparr>] \<rparr>)"
proof -
  have fields: "description_field Unset = Inr None" "due_date_field Unset = Inr None"
    by (simp_all add: description_field_def due_date_field_def)
  have bad: "TaskCreate_priority_field (Val ''urgent'')
               = Inl (ValueError ''Priority must be one of: low, medium, high'')"
    by (simp add: TaskCreate_priority_field_def TaskCreate_validate_priority_def lower_urgent
        allowed_def)
  have good: "TaskCreate_priority_field (Val ''HiGh'') = Inr (Some ''high'')"
    by (simp add: TaskCreate_priority_field_def TaskCreate_validate_priority_def lower_HiGh
        allowed_def)
  have a: "post_request ''u1'' (priority_body ''Buy milk'' ''urgent'') empty_session ''u1'' 1 2 1
     = (Inl (ValidationError
               [(''priority'', ValueError ''Priority must be one of: low, medium, high'')]),
        empty_session)"
    by (simp add: post_request_def parse_TaskCreate_def priority_body_def Let_def err_def
        fields title_field_Buy_milk bad)
  have p: "parse_TaskCreate (priority_body ''Buy milk'' ''HiGh'') =
     Inr \<lparr> TaskCreate.title = ''Buy milk'', description = None, priority = Some ''high'',
           due_date = None \<rparr>"
    by (simp add: parse_TaskCreate_def priority_body_def Let_def err_def
        fields title_field_Buy_milk good)
  have b: "post_request ''u1'' (priority_body ''Buy milk'' ''HiGh'') empty_session ''u1'' 1 2 1 =
     (Inr \<lparr> TaskResponse.id = 1, user_id = ''u1'', title = ''Buy milk'', description = None,
            completed = False, priority = ''high'', due_date = None,
            created_at = 1, updated_at = 2 \<rparr>,
      \<lparr> tasks = [\<lparr> Task.id = Some 1, user_id = ''u1'', title = ''Buy milk'',
                   description = None, completed = False, priority = ''high'',
                   due_date = None, created_at = 1, updated_at = 2 \<rparr>] \<rparr>)"
    by (simp add: post_request_def p create_task_def verify_user_access_def
        add_commit_def store_row_def varchar_def nul_free_def in_int32_def Let_def
        model_validate_def empty_session_def)
  have c: "post_request ''u1'' (title_body ''Buy milk'') empty_session ''u1'' 1 2 1 =
     (Inr \<lparr> TaskResponse.id = 1, user_id = ''u1'', title = ''Buy milk'', description = None,
            completed = False, priority = ''medium'', due_date = None,
            created_at = 1, updated_at = 2 \<rparr>,
      \<lparr> tasks = [\<lparr> Task.id = Some 1, user_id = ''u1'', title = ''Buy milk'',
                   description = None, completed = False, priority = ''medium'',
                   due_date = None, created_at = 1, updated_at = 2 \<rparr>] \<rparr>)"
    by (simp add: post_request_def parse_title_body create_task_def verify_user_access_def
        add_commit_def store_row_def varchar_def nul_free_def in_int32_def Let_def
        model_validate_def empty_session_def)
  show ?thesis using a b c by (simp add: error_status_def)
qed


section \<open>Full replacement\<close>

text \<open>
  A PUT whose body lacks \<open>title\<close> or \<open>completed\<close> is refused for every session, path
  and user with a validation error that names the missing field, answered with status
  422, and the session is returned as it was.
\<close>

lemma parse_TaskUpdate_missing:
  assumes "Body.title body = Unset \<or> Body.completed body = Unset"
  shows "\<exists>errs. parse_TaskUpdate body = Inl (ValidationError errs)
       \<and> ((''title'', Missing) \<in> set errs \<or> (''completed'', Missing) \<in> set errs)"
  using assms
  by (auto simp: parse_TaskUpdate_def Let_def err_def TaskUpdate_title_field_def
      TaskUpdate_completed_field_def split: sum.splits)

lemma put_missing_refused:
  assumes "Body.title body = Unset \<or> Body.completed body = Unset"
  shows "\<exists>errs. put_request owner task_id body session current now
                 = (Inl (ValidationError errs), session)
               \<and> ((''title'', Missing) \<in> set errs \<or> (''completed'', Missing) \<in> set errs)
               \<and> error_status (ValidationError errs) = 422"
proof -
  obtain errs where "parse_TaskUpdate body = Inl (ValidationError errs)"
    and "(''title'', Missing) \<in> set errs \<or> (''completed'', Missing) \<in> set errs"
    using parse_TaskUpdate_missing [OF assms] by blast
  then show ?thesis by (auto simp: put_request_def error_status_def)
qed

text \<open>
  Claim C3 at concrete requests.  \<open>TaskUpdate.priority\<close> has the default
  \<^verbatim>\<open>"medium"\<close>, so a PUT with title and \<open>completed\<close> but no priority is not
  refused: it succeeds, and the stored priority \<open>high\<close> becomes \<open>medium\<close>; the claim
  and the docstrings of the schema and of the handler say every field is required.  A
  PUT without \<open>completed\<close> is refused and the row untouched, but with status 422,
  where the claim, the docstrings and the tests say 400.
\<close>

theorem put_without_priority_accepted:
  "Body.priority put_body = Unset
   \<and> put_request ''alice'' 1 put_body alice_session ''alice'' 9 =
     (Inr \<lparr> TaskResponse.id = 1, user_id = ''alice'', title = ''Buy bread'',
            description = None, completed = False, priority = ''medium'', due_date = None,
            created_at = 5, updated_at = 9 \<rparr>,
      \<lparr> tasks = [\<lparr> Task.id = Some 1, user_id = ''alice'', title = ''Buy bread'',
                   description = None, completed = False, priority = ''medium'',
                   due_date = None, created_at = 5, updated_at = 9 \<rparr>] \<rparr>)
   \<and> Task.priority alice_task = ''high''
   \<and> put_request ''alice'' 1 (title_body ''Buy bread'') alice_session ''alice'' 9
     = (Inl (ValidationError [(''completed'', Missing)]), alice_session)
   \<and> error_status (ValidationError [(''completed'', Missing)]) = 422"
proof -
  have t: "TaskUpdate_title_field (Val ''Buy bread'') = Inr ''Buy bread''"
    by (simp add: TaskUpdate_title_field_def TaskUpdate_title_not_empty_def strip_def
        isspace_def min_length_ok_def max_length_ok_def)
  have fields: "description_field Unset = Inr None" "due_date_field Unset = Inr None"
    "TaskUpdate_priority_field Unset = Inr ''medium''"
    "TaskUpdate_completed_field Unset = Inl Missing"
    "TaskUpdate_completed_field (Val False) = Inr False"
    by (simp_all add: description_field_def due_date_field_def TaskUpdate_priority_field_def
        TaskUpdate_completed_field_def)
  have p: "parse_TaskUpdate put_body =
     Inr \<lparr> TaskUpdate.title = ''Buy bread'', description = None, completed = False,
           priority = ''medium'', due_date = None \<rparr>"
    by (simp add: parse_TaskUpdate_def put_body_def Let_def err_def t fields)
  have a: "put_request ''alice'' 1 put_body alice_session ''alice'' 9 =
     (Inr \<lparr> TaskResponse.id = 1, user_id = ''alice'', title = ''Buy bread'',
            description = None, completed = False, priority = ''medium'', due_date = None,
            created_at = 5, updated_at = 9 \<rparr>,
      \<lparr> tasks = [\<lparr> Task.id = Some 1, user_id = ''alice'', title = ''Buy bread'',
                   description = None, completed = False, priority = ''medium'',
                   due_date = None, created_at = 5, updated_at = 9 \<rparr>] \<rparr>)"
    by (simp add: put_request_def p update_task_def verify_user_access_def
        execute_select_def in_int32_def nul_free_def select_task_def
        alice_session_def alice_task_def update_commit_def store_row_def varchar_def
        model_validate_def)
  have b: "put_request ''alice'' 1 (title_body ''Buy bread'') alice_session ''alice'' 9
     = (Inl (ValidationError [(''completed'', Missing)]), alice_session)"
    by (simp add: put_request_def parse_TaskUpdate_def title_body_def Let_def err_def t fields)
  show ?thesis using a b by (simp add: put_body_def alice_task_def error_status_def)
qed


section \<open>The access gate and the subject identifier\<close>

text \<open>
  Claim C2.  \<open>verify_user_access\<close> raises 403 exactly when the subject identifier and
  the path owner identifier are different strings (equality of the character lists, so
  case matters); on equal strings it returns unit; 403 is the only exception it raises.
  It is a function of its two arguments alone: it takes no session and returns none.
\<close>

theorem verify_user_access_forbidden_iff:
  "(verify_user_access subject path_owner = Inl HTTP_403 \<longleftrightarrow> subject \<noteq> path_owner)
   \<and> (subject = path_owner \<longrightarrow> verify_user_access subject path_owner = Inr ())
   \<and> (\<forall>e. verify_user_access subject path_owner = Inl e \<longrightarrow> e = HTTP_403)"
  by (simp add: verify_user_access_def)

theorem verify_user_access_forbidden_iff_witness:
  "verify_user_access ''alice'' ''Alice'' = Inl HTTP_403
   \<and> verify_user_access ''alice'' ''alice'' = Inr ()"
  using verify_user_access_forbidden_iff [of "''alice''" "''Alice''"]
    verify_user_access_forbidden_iff [of "''alice''" "''alice''"]
  by simp

text \<open>
  Claim C10.  When the token verifies and its \<open>sub\<close> claim is the empty string,
  \<open>get_user_id_from_token\<close> raises 401; so a subject identifier it returns is never the
  empty string.
\<close>

theorem empty_sub_unauthenticated:
  "(verify_token token = Inr payload \<and> payload ''sub'' = Some []
      \<longrightarrow> get_user_id_from_token verify_token token = Inl HTTP_401)
   \<and> (get_user_id_from_token verify_token token = Inr subject \<longrightarrow> subject \<noteq> [])"
  by (auto simp: get_user_id_from_token_def split: sum.splits option.splits if_splits)

theorem empty_sub_unauthenticated_witness:
  "get_user_id_from_token (\<lambda>t. Inr (\<lambda>k. if k = ''sub'' then Some [] else None)) ''tok''
     = Inl HTTP_401
   \<and> get_user_id_from_token (\<lambda>t. Inr (\<lambda>k. if k = ''sub'' then Some ''u1'' else None)) ''tok''
     = Inr ''u1'' \<and> ''u1'' \<noteq> []"
proof -
  have a: "get_user_id_from_token (\<lambda>t. Inr (\<lambda>k. if k = ''sub'' then Some [] else None)) ''tok''
     = Inl HTTP_401"
    using empty_sub_unauthenticated
      [of "\<lambda>t. Inr (\<lambda>k. if k = ''sub'' then Some [] else None)" "''tok''"
          "\<lambda>k. if k = ''sub'' then Some [] else None"]
    by simp
  have b: "get_user_id_from_token (\<lambda>t. Inr (\<lambda>k. if k = ''sub'' then Some ''u1'' else None)) ''tok''
     = Inr ''u1''"
    by (simp add: get_user_id_from_token_def)
  show ?thesis
    using a b empty_sub_unauthenticated
      [of "\<lambda>t. Inr (\<lambda>k. if k = ''sub'' then Some ''u1'' else None)" "''tok''" _ "''u1''"]
    by simp
qed


section \<open>The key-set cache\<close>

text \<open>
  What \<open>fetch_jwks\<close> does when the remote request fails: with an entry whose expiry
  time has passed it raises, exactly as with no entry at all.
\<close>

lemma fetch_jwks_expired_raises:
  assumes "getlink cache jwks_url = Some (k, v, expires)"
    and "expires \<le> now1" and "now1 \<le> now2"
  shows "fetch_jwks jwks_url force_refresh (Inl HTTPError) now1 now2 cache
           = (Inl HTTPError, cache)"
  using assms by (simp add: fetch_jwks_def contains_def)

lemma fetch_jwks_no_previous_raises:
  assumes "getlink cache jwks_url = None"
  shows "fetch_jwks jwks_url force_refresh (Inl HTTPError) now1 now2 cache
           = (Inl HTTPError, cache)"
  using assms by (simp add: fetch_jwks_def contains_def)

text \<open>
  Claim C4 at a concrete run.  The key set is fetched at time 0 and cached until 3600.
  At time 3600 the entry has expired; the remote request fails; the entry is still in
  the links, but \<open>fetch_jwks\<close> raises the \<open>HTTPError\<close> instead of returning it: the
  membership test of the cache no longer sees an expired entry.  (Before expiry, a
  forced refresh that fails does fall back to the cached value.)
\<close>

theorem expired_entry_not_served:
  "fetch_jwks jwks_url_example False (Inr jwks_example) 0 0 jwks_cache_init
     = (Inr jwks_example, jwks_cache_filled)
   \<and> getlink jwks_cache_filled jwks_url_example = Some (jwks_url_example, jwks_example, 3600)
   \<and> fetch_jwks jwks_url_example False (Inl HTTPError) 3600 3600 jwks_cache_filled
     = (Inl HTTPError, jwks_cache_filled)
   \<and> fetch_jwks jwks_url_example True (Inl HTTPError) 3599 3599 jwks_cache_filled
     = (Inr jwks_example, jwks_cache_filled)"
  by (simp add: fetch_jwks_def contains_def getitem_def getlink_def setitem_def expire_def
      jwks_cache_init_def jwks_cache_filled_def jwks_url_example_def jwks_example_def Let_def)

end
